theory Spec2Isabelle
  imports Main "HOL-Library.Word"
begin

unbundle bit_operations_syntax

section \<open>libmbbootimg: the Android reader and the MTK writer\<close>

text \<open>
  A shallow embedding of \<^verbatim>\<open>libmbbootimg/src/format/android_reader.cpp\<close> and
  \<^verbatim>\<open>libmbbootimg/src/format/mtk_writer.cpp\<close>. Integers have the widths of the source
  (\<open>uint32_t\<close> is \<open>32 word\<close>, \<open>uint64_t\<close> and, on the LP64 targets modelled here,
  \<open>size_t\<close> are \<open>64 word\<close>). The error message that \<open>mb_bi_reader_set_error\<close> and
  \<open>mb_bi_writer_set_error\<close> record does not influence any control flow and is left out;
  every return statement of the source is a branch of the model.
\<close>

type_synonym byte = "8 word"
type_synonym u32 = "32 word"
type_synonym u64 = "64 word"

subsection \<open>Return codes\<close>

text \<open>
  The status codes of \<^verbatim>\<open>defs.h\<close>. The source's documentation of the bid functions
  (a result \<open>\<ge> 0\<close> is a number of bits, otherwise it is one of the codes) fixes that
  every code but \<open>RET_OK\<close> is negative; that is all the source relies on
  (\<open>if (ret < 0)\<close>).
\<close>

datatype ret = RET_OK | RET_WARN | RET_FAILED | RET_FATAL | RET_UNSUPPORTED

definition ret_negative :: "ret \<Rightarrow> bool" where
  "ret_negative r = (r \<noteq> RET_OK)"

subsection \<open>C strings\<close>

text \<open>
  \<open>strcmp\<close> and \<open>strcasecmp\<close> of the C library, on NUL-terminated strings given as the
  list of their characters before the terminator. Only the sign of the result is specified
  by C; the model returns \<open>-1\<close>, \<open>0\<close> or \<open>1\<close>. \<open>tolower\<close> is the one of the C locale:
  it adds 32 to the codes 65 to 90 (\<open>A\<close> to \<open>Z\<close>), which is setting bit 5 of the character,
  clear in that range.
\<close>

definition tolower :: "char \<Rightarrow> char" where
  "tolower c =
     (if (65::nat) \<le> of_char c \<and> of_char c \<le> (90::nat)
      then (case c of Char b0 b1 b2 b3 b4 b5 b6 b7 \<Rightarrow> Char b0 b1 b2 b3 b4 True b6 b7)
      else c)"

fun strcmp :: "string \<Rightarrow> string \<Rightarrow> int" where
  "strcmp [] [] = 0"
| "strcmp [] (b # bs) = -1"
| "strcmp (a # as) [] = 1"
| "strcmp (a # as) (b # bs) =
     (if a = b then strcmp as bs
      else if (of_char a :: nat) < of_char b then -1 else 1)"

definition strcasecmp :: "string \<Rightarrow> string \<Rightarrow> int" where
  "strcasecmp a b = strcmp (map tolower a) (map tolower b)"

subsection \<open>The Android header\<close>

text \<open>
  The fields of \<open>struct AndroidHeader\<close> (its declaration is not among the sources; the
  fields are the ones the two files access and the specification lists). The integral
  fields are held in host byte order.
\<close>

record AndroidHeader =
  magic :: "byte list"
  kernel_size :: u32
  kernel_addr :: u32
  ramdisk_size :: u32
  ramdisk_addr :: u32
  second_size :: u32
  second_addr :: u32
  tags_addr :: u32
  page_size :: u32
  dt_size :: u32
  unused :: u32
  name :: "byte list"
  cmdline :: "byte list"
  id_field :: "byte list"

subsection \<open>Entry types and the segment reader\<close>

datatype entry_type =
    ENTRY_TYPE_KERNEL
  | ENTRY_TYPE_RAMDISK
  | ENTRY_TYPE_SECONDBOOT
  | ENTRY_TYPE_DEVICE_TREE
  | ENTRY_TYPE_MTK_KERNEL_HEADER
  | ENTRY_TYPE_MTK_RAMDISK_HEADER

text \<open>
  The size of a segment entry is read into 64-bit variables by the source
  (\<open>uint64_t remain = entry->size\<close>); it is modelled with 64 bits, which covers a
  narrower declaration of the field.
\<close>

record SegmentReaderEntry =
  sr_type :: entry_type
  sr_offset :: u64
  sr_size :: u64
  can_truncate :: bool

record SegmentReader =
  sr_entries :: "SegmentReaderEntry list"

text \<open>
  Modelled from the spec: \<open>SegmentReader::entries_clear\<close> and
  \<open>SegmentReader::entries_add\<close> (the segment engine is not among the sources).
  \<open>entries_clear\<close> empties the table; \<open>entries_add(type, offset, size, can_truncate)\<close>
  appends an entry and fails with \<open>UNSUPPORTED\<close> if the type is already present.
\<close>

definition sr_entries_clear :: "SegmentReader \<Rightarrow> SegmentReader" where
  "sr_entries_clear s = s\<lparr>sr_entries := []\<rparr>"

definition sr_entries_add ::
  "SegmentReader \<Rightarrow> entry_type \<Rightarrow> u64 \<Rightarrow> u64 \<Rightarrow> bool \<Rightarrow> ret \<times> SegmentReader" where
  "sr_entries_add s t off sz ct =
     (if t \<in> set (map sr_type (sr_entries s)) then (RET_UNSUPPORTED, s)
      else (RET_OK, s\<lparr>sr_entries := sr_entries s @
              [\<lparr>sr_type = t, sr_offset = off, sr_size = sz, can_truncate = ct\<rparr>]\<rparr>))"

subsection \<open>The Android reader context\<close>

record AndroidReaderCtx =
  hdr :: AndroidHeader
  header_offset :: u64
  have_header_offset :: bool
  samsung_offset :: u64
  have_samsung_offset :: bool
  bump_offset :: u64
  have_bump_offset :: bool
  allow_truncated_dt :: bool
  seg :: SegmentReader

definition zero_AndroidHeader :: AndroidHeader where
  "zero_AndroidHeader =
     \<lparr>magic = replicate 8 0, kernel_size = 0, kernel_addr = 0, ramdisk_size = 0,
      ramdisk_addr = 0, second_size = 0, second_addr = 0, tags_addr = 0, page_size = 0,
      dt_size = 0, unused = 0, name = replicate 16 0, cmdline = replicate 512 0,
      id_field = replicate 32 0\<rparr>"

text \<open>
  Modelled from the spec: the state of a new \<open>AndroidReaderCtx\<close> (its constructor is not
  among the sources): nothing has been discovered yet, the table is empty.
\<close>

definition new_AndroidReaderCtx :: AndroidReaderCtx where
  "new_AndroidReaderCtx =
     \<lparr>hdr = zero_AndroidHeader, header_offset = 0, have_header_offset = False,
      samsung_offset = 0, have_samsung_offset = False,
      bump_offset = 0, have_bump_offset = False,
      allow_truncated_dt = False, seg = \<lparr>sr_entries = []\<rparr>\<rparr>"

subsection \<open>Options of the Android reader\<close>

definition android_reader_set_option ::
  "AndroidReaderCtx \<Rightarrow> string \<Rightarrow> string \<Rightarrow> ret \<times> AndroidReaderCtx" where
  "android_reader_set_option ctx key val =
     (if strcmp key ''strict'' = 0 then
        (let strict = (strcasecmp val ''true'' = 0
                \<or> strcasecmp val ''yes'' = 0
                \<or> strcasecmp val ''y'' = 0
                \<or> strcmp val ''1'' = 0)
         in (RET_OK, ctx\<lparr>allow_truncated_dt := \<not> strict\<rparr>))
      else (RET_WARN, ctx))"

text \<open>
  \<open>mb_bi_reader_enable_format_android\<close>: the context that is handed to
  \<open>_mb_bi_reader_register_format\<close> (the registration itself is not among the sources).
\<close>

definition mb_bi_reader_enable_format_android :: AndroidReaderCtx where
  "mb_bi_reader_enable_format_android = new_AndroidReaderCtx\<lparr>allow_truncated_dt := True\<rparr>"

subsection \<open>The file\<close>

text \<open>
  Modelled from the spec: the abstract file (\<open>File\<close>, \<open>file_read_fully\<close> and
  \<open>file_write_fully\<close> of \<^verbatim>\<open>mbcommon\<close> are not among the sources), a seekable byte store
  with \<open>seek\<close>, \<open>read_fully\<close>, \<open>write_fully\<close>, \<open>truncate\<close> and a fatal bit. The model is an
  in-memory file: its bytes, the position, a script of the outcomes of the coming
  operations (so that every failure branch of the source can be taken; an empty script
  means that nothing fails), the fatal bit of the last failure and the log of the
  operations performed. A read is short only at the end of the file or when the script
  says so; a write beyond the end fills the gap with zero bytes, and so does a truncation
  to a greater length. Offsets are passed to \<open>seek\<close> as unbounded integers.
\<close>

datatype whence = SEEK_SET | SEEK_CUR | SEEK_END

datatype outcome = Succeeds | Fails bool | Short nat

datatype file_op = OpSeek int whence | OpRead nat | OpWrite "byte list" | OpTruncate nat

record File =
  content :: "byte list"
  fpos :: nat
  script :: "outcome list"
  is_fatal :: bool
  ops :: "file_op list"

definition next_outcome :: "File \<Rightarrow> outcome" where
  "next_outcome f = (case script f of [] \<Rightarrow> Succeeds | x # _ \<Rightarrow> x)"

definition logged :: "File \<Rightarrow> file_op \<Rightarrow> File" where
  "logged f opn = f\<lparr>script := tl (script f), ops := ops f @ [opn]\<rparr>"

definition file_seek :: "File \<Rightarrow> int \<Rightarrow> whence \<Rightarrow> bool \<times> nat \<times> File" where
  "file_seek f off wh =
     (let f1 = logged f (OpSeek off wh);
          target = (case wh of
                      SEEK_SET \<Rightarrow> off
                    | SEEK_CUR \<Rightarrow> int (fpos f) + off
                    | SEEK_END \<Rightarrow> int (length (content f)) + off)
      in case next_outcome f of
           Fails b \<Rightarrow> (False, fpos f, f1\<lparr>is_fatal := b\<rparr>)
         | _ \<Rightarrow> if target < 0 then (False, fpos f, f1\<lparr>is_fatal := False\<rparr>)
                else (True, nat target, f1\<lparr>fpos := nat target\<rparr>))"

definition file_read_fully :: "File \<Rightarrow> nat \<Rightarrow> bool \<times> byte list \<times> File" where
  "file_read_fully f n =
     (let f1 = logged f (OpRead n)
      in case next_outcome f of
           Fails b \<Rightarrow> (False, [], f1\<lparr>is_fatal := b\<rparr>)
         | Short k \<Rightarrow>
             (let bs = take (min k n) (drop (fpos f) (content f))
              in (True, bs, f1\<lparr>fpos := fpos f + length bs\<rparr>))
         | Succeeds \<Rightarrow>
             (let bs = take n (drop (fpos f) (content f))
              in (True, bs, f1\<lparr>fpos := fpos f + length bs\<rparr>)))"

definition write_at :: "nat \<Rightarrow> byte list \<Rightarrow> byte list \<Rightarrow> byte list" where
  "write_at p bs d = take p d @ replicate (p - length d) 0 @ bs @ drop (p + length bs) d"

definition file_write_fully :: "File \<Rightarrow> byte list \<Rightarrow> bool \<times> nat \<times> File" where
  "file_write_fully f bs =
     (let f1 = logged f (OpWrite bs)
      in case next_outcome f of
           Fails b \<Rightarrow> (False, 0, f1\<lparr>is_fatal := b\<rparr>)
         | Short k \<Rightarrow>
             (let ws = take k bs
              in (True, length ws,
                  f1\<lparr>content := write_at (fpos f) ws (content f), fpos := fpos f + length ws\<rparr>))
         | Succeeds \<Rightarrow>
             (True, length bs,
              f1\<lparr>content := write_at (fpos f) bs (content f), fpos := fpos f + length bs\<rparr>))"

definition file_truncate :: "File \<Rightarrow> nat \<Rightarrow> bool \<times> File" where
  "file_truncate f n =
     (let f1 = logged f (OpTruncate n)
      in case next_outcome f of
           Fails b \<Rightarrow> (False, f1\<lparr>is_fatal := b\<rparr>)
         | _ \<Rightarrow> (True, f1\<lparr>content := take n (content f) @ replicate (n - length (content f)) 0\<rparr>))"

text \<open>The source's \<open>file.is_fatal() ? RET_FATAL : RET_FAILED\<close>.\<close>

definition io_ret :: "File \<Rightarrow> ret" where
  "io_ret f = (if is_fatal f then RET_FATAL else RET_FAILED)"

subsection \<open>Constants and layouts that the sources take from headers\<close>

text \<open>
  The values of \<open>MAX_HEADER_OFFSET\<close>, \<open>SAMSUNG_SEANDROID_MAGIC\<close>, \<open>BUMP_MAGIC\<close>,
  \<open>sizeof(AndroidHeader)\<close> and \<open>offsetof(MtkHeader, size)\<close>, and the layout of
  \<open>struct AndroidHeader\<close> in the file (what the \<open>memcpy\<close> of the raw bytes followed by
  \<open>android_fix_header_byte_order\<close> decodes, and what the write of the byte-swapped struct
  emits) are declared in headers that are not among the sources. The functions take them
  as a parameter \<open>K\<close>, so every theorem holds for all their values.
\<close>

record params =
  MAX_HEADER_OFFSET :: nat
  sizeof_AndroidHeader :: nat
  SAMSUNG_SEANDROID_MAGIC :: "byte list"
  BUMP_MAGIC :: "byte list"
  offsetof_MtkHeader_size :: u64
  decode_AndroidHeader :: "byte list \<Rightarrow> AndroidHeader"
  encode_AndroidHeader :: "AndroidHeader \<Rightarrow> byte list"

text \<open>Modelled from the spec: the magic of the Android header is the 8 bytes \<open>ANDROID!\<close>.\<close>

definition BOOT_MAGIC :: "byte list" where
  "BOOT_MAGIC = [0x41, 0x4E, 0x44, 0x52, 0x4F, 0x49, 0x44, 0x21]"

definition BOOT_MAGIC_SIZE :: nat where
  "BOOT_MAGIC_SIZE = 8"

text \<open>
  Modelled from the spec: \<open>sizeof(MtkHeader)\<close>, the MTK sub-header being a block of 512
  bytes. It is a \<open>size_t\<close>.
\<close>

definition sizeof_MtkHeader :: u64 where
  "sizeof_MtkHeader = 512"

definition UINT32_MAX :: u32 where
  "UINT32_MAX = 0xFFFFFFFF"

definition SIZE_MAX :: u64 where
  "SIZE_MAX = 0xFFFFFFFFFFFFFFFF"

text \<open>
  Modelled from the spec: \<open>align_page_size<T>(item_size, page_size)\<close> of
  \<^verbatim>\<open>align_p.h\<close>, which is not among the sources: the number of bytes to add to a position
  to align it up to the next multiple of the page size (nothing if it is one already).
  The specification does not say what a page size of 0 yields; here the aligned position
  is then 0.
\<close>

definition align_page_size :: "u64 \<Rightarrow> u64 \<Rightarrow> u64" where
  "align_page_size item_size psize =
     (if item_size mod psize = 0 then 0 else psize - item_size mod psize)"

text \<open>\<open>mb_htole32\<close> followed by the write of the four bytes of the value.\<close>

definition le32 :: "u32 \<Rightarrow> byte list" where
  "le32 w = [ucast w, ucast (drop_bit 8 w), ucast (drop_bit 16 w), ucast (drop_bit 24 w)]"

subsection \<open>The segment writer\<close>

record SegmentWriterEntry =
  sw_type :: entry_type
  sw_offset :: u64
  sw_size :: u64
  sw_align :: u64

text \<open>
  Modelled from the spec: the state of the \<open>SegmentWriter\<close> (not among the sources) that
  the MTK writer reads: the table and the cursor. \<open>entry()\<close> is the entry under the cursor,
  or null when there is none (before the first entry, and once the cursor is exhausted).
\<close>

record SegmentWriter =
  sw_entries :: "SegmentWriterEntry list"
  sw_cursor :: "nat option"

definition sw_entry :: "SegmentWriter \<Rightarrow> SegmentWriterEntry option" where
  "sw_entry s =
     (case sw_cursor s of
        None \<Rightarrow> None
      | Some i \<Rightarrow> if i < length (sw_entries s) then Some (sw_entries s ! i) else None)"

text \<open>
  Modelled from the spec: \<open>SegmentWriter::finish_entry\<close>: the size of the entry is the one
  accumulated by the writes; the file is moved forward by the padding that aligns the
  position to the entry's alignment (none for an alignment of 0). Without a current entry
  there is nothing to finish.
\<close>

definition sw_finish_entry :: "SegmentWriter \<Rightarrow> File \<Rightarrow> ret \<times> SegmentWriter \<times> File" where
  "sw_finish_entry s f =
     (case sw_entry s of
        None \<Rightarrow> (RET_OK, s, f)
      | Some e \<Rightarrow>
          if sw_align e > 0 then
            (case file_seek f (uint (align_page_size (of_nat (fpos f)) (sw_align e))) SEEK_CUR of
               (ok, p, f1) \<Rightarrow> if \<not> ok then (io_ret f1, s, f1) else (RET_OK, s, f1))
          else (RET_OK, s, f))"

subsection \<open>The MTK writer\<close>

record MtkWriterCtx =
  mtk_hdr :: AndroidHeader
  have_file_size :: bool
  file_size :: u64
  mtk_seg :: SegmentWriter

text \<open>
  \<open>mtk_writer_finish_entry\<close>. The result is \<open>None\<close> where the source dereferences the null
  pointer that \<open>seg.entry()\<close> returns when there is no current entry. The sums are computed
  in \<open>size_t\<close> and stored in the 32-bit fields of the header.
\<close>

definition mtk_writer_finish_entry ::
  "MtkWriterCtx \<Rightarrow> File \<Rightarrow> (ret \<times> MtkWriterCtx \<times> File) option" where
  "mtk_writer_finish_entry ctx f =
     (case sw_finish_entry (mtk_seg ctx) f of
        (r, sg, f1) \<Rightarrow>
          (let ctx1 = ctx\<lparr>mtk_seg := sg\<rparr> in
           if r \<noteq> RET_OK then Some (r, ctx1, f1)
           else
             (case sw_entry sg of
                None \<Rightarrow> None
              | Some swentry \<Rightarrow>
                  if (sw_type swentry = ENTRY_TYPE_KERNEL
                        \<or> sw_type swentry = ENTRY_TYPE_RAMDISK)
                      \<and> sw_size swentry = ucast UINT32_MAX - sizeof_MtkHeader
                  then Some (RET_FATAL, ctx1, f1)
                  else if (sw_type swentry = ENTRY_TYPE_MTK_KERNEL_HEADER
                        \<or> sw_type swentry = ENTRY_TYPE_MTK_RAMDISK_HEADER)
                      \<and> sw_size swentry \<noteq> sizeof_MtkHeader
                  then Some (RET_FATAL, ctx1, f1)
                  else
                    Some (RET_OK,
                      (case sw_type swentry of
                         ENTRY_TYPE_KERNEL \<Rightarrow>
                           ctx1\<lparr>mtk_hdr := (mtk_hdr ctx1)
                             \<lparr>kernel_size := ucast (sw_size swentry + sizeof_MtkHeader)\<rparr>\<rparr>
                       | ENTRY_TYPE_RAMDISK \<Rightarrow>
                           ctx1\<lparr>mtk_hdr := (mtk_hdr ctx1)
                             \<lparr>ramdisk_size := ucast (sw_size swentry + sizeof_MtkHeader)\<rparr>\<rparr>
                       | ENTRY_TYPE_SECONDBOOT \<Rightarrow>
                           ctx1\<lparr>mtk_hdr := (mtk_hdr ctx1)
                             \<lparr>second_size := ucast (sw_size swentry)\<rparr>\<rparr>
                       | ENTRY_TYPE_DEVICE_TREE \<Rightarrow>
                           ctx1\<lparr>mtk_hdr := (mtk_hdr ctx1)
                             \<lparr>dt_size := ucast (sw_size swentry)\<rparr>\<rparr>
                       | _ \<Rightarrow> ctx1),
                      f1))))"

text \<open>\<open>_mtk_header_update_size\<close>.\<close>

definition mtk_header_update_size :: "params \<Rightarrow> File \<Rightarrow> u64 \<Rightarrow> u32 \<Rightarrow> ret \<times> File" where
  "mtk_header_update_size K f offset size32 =
     (if offset > SIZE_MAX - offsetof_MtkHeader_size K then (RET_FATAL, f)
      else
        (case file_seek f (uint (offset + offsetof_MtkHeader_size K)) SEEK_SET of
           (ok, p, f1) \<Rightarrow>
             if \<not> ok then (io_ret f1, f1)
             else
               (case file_write_fully f1 (le32 size32) of
                  (ok2, n, f2) \<Rightarrow>
                    if \<not> ok2 then (io_ret f2, f2)
                    else if n \<noteq> 4 then (RET_FAILED, f2)
                    else (RET_OK, f2))))"

text \<open>
  The SHA-1 primitive of OpenSSL is external: \<open>SHA1_Init\<close>, \<open>SHA1_Update\<close> and \<open>SHA1_Final\<close>
  are a parameter, each able to fail as the source provides for. \<open>sha1_stream H\<close> is the
  primitive that never fails, whose context is the sequence of the bytes fed so far and
  whose digest is \<open>H\<close> of that sequence.
\<close>

record 'c SHA =
  SHA1_Init :: "'c option"
  SHA1_Update :: "'c \<Rightarrow> byte list \<Rightarrow> 'c option"
  SHA1_Final :: "'c \<Rightarrow> byte list option"

definition sha1_stream :: "(byte list \<Rightarrow> byte list) \<Rightarrow> (byte list) SHA" where
  "sha1_stream H =
     \<lparr>SHA1_Init = Some [], SHA1_Update = (\<lambda>c bs. Some (c @ bs)), SHA1_Final = (\<lambda>c. Some (H c))\<rparr>"

definition SHA_DIGEST_LENGTH :: nat where
  "SHA_DIGEST_LENGTH = 20"

text \<open>
  The inner loop of \<open>_mtk_compute_sha1\<close> (\<open>while (remain > 0)\<close>): the payload is read in
  chunks of at most \<open>sizeof(buf) = 10240\<close> bytes and fed to the digest.
\<close>

function sha1_update_data :: "'c SHA \<Rightarrow> 'c \<Rightarrow> File \<Rightarrow> u64 \<Rightarrow> ret \<times> 'c \<times> File" where
  "sha1_update_data P c f remain =
     (if remain > 0 then
        (case file_read_fully f (unat (min remain 10240)) of
           (ok, bs, f1) \<Rightarrow>
             if \<not> ok then (io_ret f1, c, f1)
             else if length bs \<noteq> unat (min remain 10240) then (RET_FAILED, c, f1)
             else
               (case SHA1_Update P c bs of
                  None \<Rightarrow> (RET_FAILED, c, f1)
                | Some c1 \<Rightarrow> sha1_update_data P c1 f1 (remain - min remain 10240)))
      else (RET_OK, c, f))"
  by pat_completeness auto
termination
proof (relation "measure (\<lambda>(P, c, f, remain). unat remain)")
  show "wf (measure (\<lambda>(P, c, f, remain). unat remain))"
    by simp
next
  fix P :: "'c SHA" and c :: 'c and f :: File and remain :: u64
    and x :: "bool \<times> byte list \<times> File" and ok :: bool and y :: "byte list \<times> File"
    and bs :: "byte list" and f1 :: File and c1 :: 'c
  assume "0 < remain"
  then have pos: "0 < unat remain"
    by (simp add: word_less_nat_alt)
  have "unat (min remain 10240) = min (unat remain) 10240"
    by (simp add: min_def word_le_nat_alt)
  moreover have "min remain 10240 \<le> remain"
    by simp
  ultimately have "unat (remain - min remain 10240) = unat remain - min (unat remain) 10240"
    by (simp add: unat_sub)
  with pos show "((P, c1, f1, remain - min remain 10240), (P, c, f, remain))
          \<in> measure (\<lambda>(P, c, f, remain). unat remain)"
    by (simp add: min_def)
qed

declare sha1_update_data.simps [simp del]

text \<open>
  The outer loop of \<open>_mtk_compute_sha1\<close> over the table, with the two remembered sizes
  \<open>kernel_mtkhdr_size\<close> and \<open>ramdisk_mtkhdr_size\<close> (both \<open>uint32_t\<close>). The \<open>switch\<close> either
  remembers a size, or skips the size term (\<open>continue\<close>), or chooses the 32-bit size that
  is fed after the payload. Its \<open>default\<close> branch has no counterpart here: the six entry
  types are all there are.
\<close>

fun mtk_sha1_entries ::
  "'c SHA \<Rightarrow> SegmentWriterEntry list \<Rightarrow> 'c \<Rightarrow> u32 \<Rightarrow> u32 \<Rightarrow> File \<Rightarrow> ret \<times> 'c \<times> File" where
  "mtk_sha1_entries P [] c kernel_mtkhdr_size ramdisk_mtkhdr_size f = (RET_OK, c, f)"
| "mtk_sha1_entries P (entry # es) c kernel_mtkhdr_size ramdisk_mtkhdr_size f =
     (case file_seek f (uint (sw_offset entry)) SEEK_SET of
        (ok, p, f1) \<Rightarrow>
          if \<not> ok then (io_ret f1, c, f1)
          else
            (case sha1_update_data P c f1 (sw_size entry) of
               (r, c1, f2) \<Rightarrow>
                 if r \<noteq> RET_OK then (r, c1, f2)
                 else
                   (case sw_type entry of
                      ENTRY_TYPE_MTK_KERNEL_HEADER \<Rightarrow>
                        mtk_sha1_entries P es c1 (ucast (sw_size entry)) ramdisk_mtkhdr_size f2
                    | ENTRY_TYPE_MTK_RAMDISK_HEADER \<Rightarrow>
                        mtk_sha1_entries P es c1 kernel_mtkhdr_size (ucast (sw_size entry)) f2
                    | ENTRY_TYPE_KERNEL \<Rightarrow>
                        (case SHA1_Update P c1
                                (le32 (ucast (sw_size entry + ucast kernel_mtkhdr_size))) of
                           None \<Rightarrow> (RET_FAILED, c1, f2)
                         | Some c2 \<Rightarrow>
                             mtk_sha1_entries P es c2 kernel_mtkhdr_size ramdisk_mtkhdr_size f2)
                    | ENTRY_TYPE_RAMDISK \<Rightarrow>
                        (case SHA1_Update P c1
                                (le32 (ucast (sw_size entry + ucast ramdisk_mtkhdr_size))) of
                           None \<Rightarrow> (RET_FAILED, c1, f2)
                         | Some c2 \<Rightarrow>
                             mtk_sha1_entries P es c2 kernel_mtkhdr_size ramdisk_mtkhdr_size f2)
                    | ENTRY_TYPE_SECONDBOOT \<Rightarrow>
                        (case SHA1_Update P c1 (le32 (ucast (sw_size entry))) of
                           None \<Rightarrow> (RET_FAILED, c1, f2)
                         | Some c2 \<Rightarrow>
                             mtk_sha1_entries P es c2 kernel_mtkhdr_size ramdisk_mtkhdr_size f2)
                    | ENTRY_TYPE_DEVICE_TREE \<Rightarrow>
                        if sw_size entry = 0
                        then mtk_sha1_entries P es c1 kernel_mtkhdr_size ramdisk_mtkhdr_size f2
                        else
                          (case SHA1_Update P c1 (le32 (ucast (sw_size entry))) of
                             None \<Rightarrow> (RET_FAILED, c1, f2)
                           | Some c2 \<Rightarrow>
                               mtk_sha1_entries P es c2 kernel_mtkhdr_size
                                 ramdisk_mtkhdr_size f2))))"

text \<open>
  \<open>_mtk_compute_sha1\<close>; \<open>digest\<close> is the buffer of \<open>SHA_DIGEST_LENGTH\<close> bytes that the
  caller passes, written only by a successful \<open>SHA1_Final\<close>.
\<close>

definition mtk_compute_sha1 ::
  "'c SHA \<Rightarrow> SegmentWriter \<Rightarrow> File \<Rightarrow> byte list \<Rightarrow> ret \<times> byte list \<times> File" where
  "mtk_compute_sha1 P sg f digest =
     (case SHA1_Init P of
        None \<Rightarrow> (RET_FAILED, digest, f)
      | Some c0 \<Rightarrow>
          (case mtk_sha1_entries P (sw_entries sg) c0 0 0 f of
             (r, c, f1) \<Rightarrow>
               if r \<noteq> RET_OK then (r, digest, f1)
               else
                 (case SHA1_Final P c of
                    None \<Rightarrow> (RET_FATAL, digest, f1)
                  | Some d \<Rightarrow> (RET_OK, d, f1))))"

text \<open>
  The loop of \<open>mtk_writer_close\<close> that updates the sizes in the MTK headers. The difference
  \<open>kernel_size - sizeof(MtkHeader)\<close> is computed in \<open>size_t\<close> and passed as a \<open>uint32_t\<close>.
\<close>

fun mtk_update_header_sizes ::
  "params \<Rightarrow> SegmentWriterEntry list \<Rightarrow> AndroidHeader \<Rightarrow> File \<Rightarrow> ret \<times> File" where
  "mtk_update_header_sizes K [] h f = (RET_OK, f)"
| "mtk_update_header_sizes K (entry # es) h f =
     (case sw_type entry of
        ENTRY_TYPE_MTK_KERNEL_HEADER \<Rightarrow>
          (case mtk_header_update_size K f (sw_offset entry)
                  (ucast ((ucast (kernel_size h) :: u64) - sizeof_MtkHeader)) of
             (r, f1) \<Rightarrow> if r \<noteq> RET_OK then (r, f1) else mtk_update_header_sizes K es h f1)
      | ENTRY_TYPE_MTK_RAMDISK_HEADER \<Rightarrow>
          (case mtk_header_update_size K f (sw_offset entry)
                  (ucast ((ucast (ramdisk_size h) :: u64) - sizeof_MtkHeader)) of
             (r, f1) \<Rightarrow> if r \<noteq> RET_OK then (r, f1) else mtk_update_header_sizes K es h f1)
      | _ \<Rightarrow> mtk_update_header_sizes K es h f)"

text \<open>
  The part of \<open>mtk_writer_close\<close> under \<open>if (!swentry)\<close>. The digest buffer is the start of
  the \<open>id\<close> field of the header. The bytes written last are those of the byte-swapped
  copy of the header, \<open>sizeof(hdr)\<close> of them: the length that the number of bytes written
  is compared with.
\<close>

definition mtk_finish_image ::
  "params \<Rightarrow> 'c SHA \<Rightarrow> MtkWriterCtx \<Rightarrow> File \<Rightarrow> ret \<times> MtkWriterCtx \<times> File" where
  "mtk_finish_image K P ctx f =
     (case file_truncate f (unat (file_size ctx)) of
        (ok, f1) \<Rightarrow>
          if \<not> ok then (io_ret f1, ctx, f1)
          else
            (case mtk_update_header_sizes K (sw_entries (mtk_seg ctx)) (mtk_hdr ctx) f1 of
               (r, f2) \<Rightarrow>
                 if r \<noteq> RET_OK then (r, ctx, f2)
                 else
                   (case mtk_compute_sha1 P (mtk_seg ctx) f2
                           (take SHA_DIGEST_LENGTH (id_field (mtk_hdr ctx))) of
                      (r2, digest, f3) \<Rightarrow>
                        (let ctx1 = ctx\<lparr>mtk_hdr := (mtk_hdr ctx)
                               \<lparr>id_field := digest
                                   @ drop SHA_DIGEST_LENGTH (id_field (mtk_hdr ctx))\<rparr>\<rparr>
                         in if r2 \<noteq> RET_OK then (r2, ctx1, f3)
                            else
                              (case file_seek f3 0 SEEK_SET of
                                 (ok2, p, f4) \<Rightarrow>
                                   if \<not> ok2 then (io_ret f4, ctx1, f4)
                                   else
                                     (case file_write_fully f4
                                             (encode_AndroidHeader K (mtk_hdr ctx1)) of
                                        (ok3, n, f5) \<Rightarrow>
                                          if \<not> ok3
                                              \<or> n \<noteq> length (encode_AndroidHeader K (mtk_hdr ctx1))
                                          then (io_ret f5, ctx1, f5)
                                          else (RET_OK, ctx1, f5)))))))"

definition mtk_writer_close ::
  "params \<Rightarrow> 'c SHA \<Rightarrow> MtkWriterCtx \<Rightarrow> File \<Rightarrow> ret \<times> MtkWriterCtx \<times> File" where
  "mtk_writer_close K P ctx f =
     (case (if \<not> have_file_size ctx then
              (case file_seek f 0 SEEK_CUR of
                 (ok, p, f1) \<Rightarrow>
                   if \<not> ok then Inl (io_ret f1, f1)
                   else Inr (ctx\<lparr>file_size := of_nat p, have_file_size := True\<rparr>, f1))
            else Inr (ctx, f)) of
        Inl (r, f1) \<Rightarrow> (r, ctx, f1)
      | Inr (ctx1, f1) \<Rightarrow>
          (case sw_entry (mtk_seg ctx1) of
             Some swentry \<Rightarrow> (RET_OK, ctx1, f1)
           | None \<Rightarrow> mtk_finish_image K P ctx1 f1))"

subsection \<open>The digest input, as the specification describes it\<close>

text \<open>
  The sequence of bytes that the specification of the digest computation prescribes,
  written from its words and its table (not from the source): for each segment of the table,
  in table order, the payload bytes of the segment in the file, then the little-endian
  32-bit size term of its type. \<open>segment_size tbl t\<close> is the size of the segment of type \<open>t\<close>.
\<close>

definition payload :: "byte list \<Rightarrow> SegmentWriterEntry \<Rightarrow> byte list" where
  "payload d e = take (unat (sw_size e)) (drop (unat (sw_offset e)) d)"

definition segment_size :: "SegmentWriterEntry list \<Rightarrow> entry_type \<Rightarrow> u64" where
  "segment_size tbl t =
     (case find (\<lambda>e. sw_type e = t) tbl of None \<Rightarrow> 0 | Some e \<Rightarrow> sw_size e)"

definition digest_size_term :: "SegmentWriterEntry list \<Rightarrow> SegmentWriterEntry \<Rightarrow> byte list" where
  "digest_size_term tbl e =
     (case sw_type e of
        ENTRY_TYPE_MTK_KERNEL_HEADER \<Rightarrow> []
      | ENTRY_TYPE_KERNEL \<Rightarrow>
          le32 (ucast (sw_size e + segment_size tbl ENTRY_TYPE_MTK_KERNEL_HEADER))
      | ENTRY_TYPE_MTK_RAMDISK_HEADER \<Rightarrow> []
      | ENTRY_TYPE_RAMDISK \<Rightarrow>
          le32 (ucast (sw_size e + segment_size tbl ENTRY_TYPE_MTK_RAMDISK_HEADER))
      | ENTRY_TYPE_SECONDBOOT \<Rightarrow> le32 (ucast (sw_size e))
      | ENTRY_TYPE_DEVICE_TREE \<Rightarrow> if sw_size e = 0 then [] else le32 (ucast (sw_size e)))"

definition digest_input :: "SegmentWriterEntry list \<Rightarrow> byte list \<Rightarrow> byte list" where
  "digest_input tbl d = concat (map (\<lambda>e. payload d e @ digest_size_term tbl e) tbl)"

text \<open>The table that \<open>mtk_writer_write_header\<close> lays out lists these types, in this order.\<close>

definition mtk_layout :: "entry_type list" where
  "mtk_layout =
     [ENTRY_TYPE_MTK_KERNEL_HEADER, ENTRY_TYPE_KERNEL, ENTRY_TYPE_MTK_RAMDISK_HEADER,
      ENTRY_TYPE_RAMDISK, ENTRY_TYPE_SECONDBOOT, ENTRY_TYPE_DEVICE_TREE]"

text \<open>
  The bytes that the loop of \<open>_mtk_compute_sha1\<close> feeds when nothing fails, for any table,
  with the two sizes the loop remembers; and the file operations of the digest pass.
\<close>

fun fed_bytes :: "byte list \<Rightarrow> u32 \<Rightarrow> u32 \<Rightarrow> SegmentWriterEntry list \<Rightarrow> byte list" where
  "fed_bytes d k r [] = []"
| "fed_bytes d k r (e # es) =
     payload d e @
     (case sw_type e of
        ENTRY_TYPE_MTK_KERNEL_HEADER \<Rightarrow> fed_bytes d (ucast (sw_size e)) r es
      | ENTRY_TYPE_MTK_RAMDISK_HEADER \<Rightarrow> fed_bytes d k (ucast (sw_size e)) es
      | ENTRY_TYPE_KERNEL \<Rightarrow> le32 (ucast (sw_size e + ucast k)) @ fed_bytes d k r es
      | ENTRY_TYPE_RAMDISK \<Rightarrow> le32 (ucast (sw_size e + ucast r)) @ fed_bytes d k r es
      | ENTRY_TYPE_SECONDBOOT \<Rightarrow> le32 (ucast (sw_size e)) @ fed_bytes d k r es
      | ENTRY_TYPE_DEVICE_TREE \<Rightarrow>
          (if sw_size e = 0 then [] else le32 (ucast (sw_size e))) @ fed_bytes d k r es)"

definition digest_pass_op :: "file_op \<Rightarrow> bool" where
  "digest_pass_op opn =
     (case opn of OpSeek off wh \<Rightarrow> wh = SEEK_SET | OpRead n \<Rightarrow> n \<le> 10240 | _ \<Rightarrow> False)"

subsection \<open>The finished image, as the specification describes it\<close>

text \<open>
  The effect of the finalization on the bytes of the file, written from the words of the
  specification: the file cut (or extended with zero bytes) to the captured length; then,
  for each MTK sub-header segment, the four bytes at the offset of the segment plus the
  offset of the \<open>size\<close> field overwritten with the little-endian payload size.
\<close>

definition truncated :: "nat \<Rightarrow> byte list \<Rightarrow> byte list" where
  "truncated n d = take n d @ replicate (n - length d) 0"

fun patch_sizes ::
  "params \<Rightarrow> SegmentWriterEntry list \<Rightarrow> AndroidHeader \<Rightarrow> byte list \<Rightarrow> byte list" where
  "patch_sizes K [] h d = d"
| "patch_sizes K (e # es) h d =
     patch_sizes K es h
       (if sw_type e = ENTRY_TYPE_MTK_KERNEL_HEADER
        then write_at (unat (sw_offset e) + unat (offsetof_MtkHeader_size K))
               (le32 (kernel_size h - 512)) d
        else if sw_type e = ENTRY_TYPE_MTK_RAMDISK_HEADER
        then write_at (unat (sw_offset e) + unat (offsetof_MtkHeader_size K))
               (le32 (ramdisk_size h - 512)) d
        else d)"

text \<open>
  The bytes of the file once it is cut to \<open>n\<close> bytes and the MTK sizes are patched, and the
  header whose \<open>id\<close> starts with the digest \<open>H\<close> of the digest input taken from these
  bytes.
\<close>

definition patched_content :: "params \<Rightarrow> MtkWriterCtx \<Rightarrow> nat \<Rightarrow> byte list \<Rightarrow> byte list" where
  "patched_content K ctx n d =
     patch_sizes K (sw_entries (mtk_seg ctx)) (mtk_hdr ctx) (truncated n d)"

definition finished_header ::
  "params \<Rightarrow> (byte list \<Rightarrow> byte list) \<Rightarrow> MtkWriterCtx \<Rightarrow> nat \<Rightarrow> byte list \<Rightarrow> AndroidHeader" where
  "finished_header K H ctx n d =
     (mtk_hdr ctx)
       \<lparr>id_field := H (digest_input (sw_entries (mtk_seg ctx)) (patched_content K ctx n d))
                     @ drop SHA_DIGEST_LENGTH (id_field (mtk_hdr ctx))\<rparr>"

subsection \<open>Finding the header and the trailing magics\<close>

text \<open>
  Modelled from the spec: \<open>mb_memmem\<close> of \<^verbatim>\<open>mbcommon\<close> (not among the sources), the scan of
  a buffer for a byte sequence: the offset of its first occurrence, if there is one.
\<close>

fun mb_memmem :: "byte list \<Rightarrow> byte list \<Rightarrow> nat option" where
  "mb_memmem [] needle = (if needle = [] then Some 0 else None)"
| "mb_memmem (b # bs) needle =
     (if take (length needle) (b # bs) = needle then Some 0
      else map_option Suc (mb_memmem bs needle))"

text \<open>
  \<open>find_android_header\<close>. The two output parameters are passed in and returned; they are
  written only when the header is found.
\<close>

definition find_android_header ::
  "params \<Rightarrow> File \<Rightarrow> nat \<Rightarrow> AndroidHeader \<Rightarrow> u64 \<Rightarrow> ret \<times> AndroidHeader \<times> u64 \<times> File" where
  "find_android_header K f max_header_offset header_out offset_out =
     (if max_header_offset > MAX_HEADER_OFFSET K then (RET_WARN, header_out, offset_out, f)
      else
        (case file_seek f 0 SEEK_SET of
           (ok, p, f1) \<Rightarrow>
             if \<not> ok then (io_ret f1, header_out, offset_out, f1)
             else
               (case file_read_fully f1 (max_header_offset + sizeof_AndroidHeader K) of
                  (ok2, buf, f2) \<Rightarrow>
                    if \<not> ok2 then (io_ret f2, header_out, offset_out, f2)
                    else
                      (case mb_memmem buf BOOT_MAGIC of
                         None \<Rightarrow> (RET_WARN, header_out, offset_out, f2)
                       | Some offset \<Rightarrow>
                           if length buf - offset < sizeof_AndroidHeader K
                           then (RET_WARN, header_out, offset_out, f2)
                           else (RET_OK,
                                 decode_AndroidHeader K
                                   (take (sizeof_AndroidHeader K) (drop offset buf)),
                                 of_nat offset, f2)))))"

text \<open>
  The position that \<open>find_samsung_seandroid_magic\<close> and \<open>find_bump_magic\<close> compute first,
  with the same statements, in \<open>uint64_t\<close>.
\<close>

definition magic_pos :: "AndroidHeader \<Rightarrow> u64" where
  "magic_pos h =
     (let pos0 = 0 + ucast (page_size h);
          pos1 = pos0 + ucast (kernel_size h);
          pos2 = pos1 + align_page_size pos1 (ucast (page_size h));
          pos3 = pos2 + ucast (ramdisk_size h);
          pos4 = pos3 + align_page_size pos3 (ucast (page_size h));
          pos5 = pos4 + ucast (second_size h);
          pos6 = pos5 + align_page_size pos5 (ucast (page_size h));
          pos7 = pos6 + ucast (dt_size h);
          pos8 = pos7 + align_page_size pos7 (ucast (page_size h))
      in pos8)"

text \<open>\<open>memcmp(a, b, n) != 0\<close> on buffers that hold at least \<open>n\<close> bytes.\<close>

definition memcmp_differs :: "byte list \<Rightarrow> byte list \<Rightarrow> nat \<Rightarrow> bool" where
  "memcmp_differs a b n = (take n a \<noteq> take n b)"

definition find_samsung_seandroid_magic ::
  "params \<Rightarrow> File \<Rightarrow> AndroidHeader \<Rightarrow> u64 \<Rightarrow> ret \<times> u64 \<times> File" where
  "find_samsung_seandroid_magic K f h offset_out =
     (case file_seek f (uint (magic_pos h)) SEEK_SET of
        (ok, p, f1) \<Rightarrow>
          if \<not> ok then (io_ret f1, offset_out, f1)
          else
            (case file_read_fully f1 (length (SAMSUNG_SEANDROID_MAGIC K)) of
               (ok2, buf, f2) \<Rightarrow>
                 if \<not> ok2 then (io_ret f2, offset_out, f2)
                 else if length buf \<noteq> length (SAMSUNG_SEANDROID_MAGIC K)
                     \<or> memcmp_differs buf (SAMSUNG_SEANDROID_MAGIC K) (length buf)
                 then (RET_WARN, offset_out, f2)
                 else (RET_OK, magic_pos h, f2)))"

definition find_bump_magic ::
  "params \<Rightarrow> File \<Rightarrow> AndroidHeader \<Rightarrow> u64 \<Rightarrow> ret \<times> u64 \<times> File" where
  "find_bump_magic K f h offset_out =
     (case file_seek f (uint (magic_pos h)) SEEK_SET of
        (ok, p, f1) \<Rightarrow>
          if \<not> ok then (io_ret f1, offset_out, f1)
          else
            (case file_read_fully f1 (length (BUMP_MAGIC K)) of
               (ok2, buf, f2) \<Rightarrow>
                 if \<not> ok2 then (io_ret f2, offset_out, f2)
                 else if length buf \<noteq> length (BUMP_MAGIC K)
                     \<or> memcmp_differs buf (BUMP_MAGIC K) (length buf)
                 then (RET_WARN, offset_out, f2)
                 else (RET_OK, magic_pos h, f2)))"

subsection \<open>The bids\<close>

text \<open>
  The \<open>int\<close> that a bid returns: a number of bits (\<open>\<ge> 0\<close>) or one of the negative codes.
\<close>

datatype bid_result = Bid int | Code ret

definition android_reader_bid ::
  "params \<Rightarrow> AndroidReaderCtx \<Rightarrow> File \<Rightarrow> int \<Rightarrow> bid_result \<times> AndroidReaderCtx \<times> File" where
  "android_reader_bid K ctx f best_bid =
     (if best_bid \<ge> int (BOOT_MAGIC_SIZE + length (SAMSUNG_SEANDROID_MAGIC K)) * 8
      then (Code RET_WARN, ctx, f)
      else
        (case find_android_header K f (MAX_HEADER_OFFSET K) (hdr ctx) (header_offset ctx) of
           (r, h, off, f1) \<Rightarrow>
             (let ctx1 = ctx\<lparr>hdr := h, header_offset := off\<rparr> in
              if r = RET_OK then
                (let ctx2 = ctx1\<lparr>have_header_offset := True\<rparr>;
                     bid = 0 + int BOOT_MAGIC_SIZE * 8
                 in case find_samsung_seandroid_magic K f1 (hdr ctx2) (samsung_offset ctx2) of
                      (r2, soff, f2) \<Rightarrow>
                        (let ctx3 = ctx2\<lparr>samsung_offset := soff\<rparr> in
                         if r2 = RET_OK then
                           (Bid (bid + int (length (SAMSUNG_SEANDROID_MAGIC K)) * 8),
                            ctx3\<lparr>have_samsung_offset := True\<rparr>, f2)
                         else if r2 = RET_WARN then (Bid bid, ctx3, f2)
                         else (Code r2, ctx3, f2)))
              else if r = RET_WARN then (Bid 0, ctx1, f1)
              else (Code r, ctx1, f1))))"

definition bump_reader_bid ::
  "params \<Rightarrow> AndroidReaderCtx \<Rightarrow> File \<Rightarrow> int \<Rightarrow> bid_result \<times> AndroidReaderCtx \<times> File" where
  "bump_reader_bid K ctx f best_bid =
     (if best_bid \<ge> int (BOOT_MAGIC_SIZE + length (BUMP_MAGIC K)) * 8
      then (Code RET_WARN, ctx, f)
      else
        (case find_android_header K f (MAX_HEADER_OFFSET K) (hdr ctx) (header_offset ctx) of
           (r, h, off, f1) \<Rightarrow>
             (let ctx1 = ctx\<lparr>hdr := h, header_offset := off\<rparr> in
              if r = RET_OK then
                (let ctx2 = ctx1\<lparr>have_header_offset := True\<rparr>;
                     bid = 0 + int BOOT_MAGIC_SIZE * 8
                 in case find_bump_magic K f1 (hdr ctx2) (bump_offset ctx2) of
                      (r2, boff, f2) \<Rightarrow>
                        (let ctx3 = ctx2\<lparr>bump_offset := boff\<rparr> in
                         if r2 = RET_OK then
                           (Bid (bid + int (length (BUMP_MAGIC K)) * 8),
                            ctx3\<lparr>have_bump_offset := True\<rparr>, f2)
                         else if r2 = RET_WARN then (Bid bid, ctx3, f2)
                         else (Code r2, ctx3, f2)))
              else if r = RET_WARN then (Bid 0, ctx1, f1)
              else (Code r, ctx1, f1))))"

subsection \<open>Reading the header\<close>

text \<open>
  Modelled from the spec: the logical header (\<open>class Header\<close> is not among the sources): a
  record of optional fields and the set of the fields that the active format supports;
  setting a field that is not supported fails. \<open>SUPPORTED_FIELDS\<close> of the Android format
  is the set of the seven fields.
\<close>

datatype header_field =
    HEADER_FIELD_BOARD_NAME
  | HEADER_FIELD_KERNEL_CMDLINE
  | HEADER_FIELD_PAGE_SIZE
  | HEADER_FIELD_KERNEL_ADDRESS
  | HEADER_FIELD_RAMDISK_ADDRESS
  | HEADER_FIELD_SECONDBOOT_ADDRESS
  | HEADER_FIELD_KERNEL_TAGS_ADDRESS

record Header =
  supported_fields :: "header_field set"
  board_name :: "byte list option"
  kernel_cmdline :: "byte list option"
  header_page_size :: "u32 option"
  kernel_address :: "u32 option"
  ramdisk_address :: "u32 option"
  secondboot_address :: "u32 option"
  kernel_tags_address :: "u32 option"

definition SUPPORTED_FIELDS :: "header_field set" where
  "SUPPORTED_FIELDS =
     {HEADER_FIELD_BOARD_NAME, HEADER_FIELD_KERNEL_CMDLINE, HEADER_FIELD_PAGE_SIZE,
      HEADER_FIELD_KERNEL_ADDRESS, HEADER_FIELD_RAMDISK_ADDRESS,
      HEADER_FIELD_SECONDBOOT_ADDRESS, HEADER_FIELD_KERNEL_TAGS_ADDRESS}"

definition header_set :: "header_field \<Rightarrow> (Header \<Rightarrow> Header) \<Rightarrow> Header \<Rightarrow> bool \<times> Header" where
  "header_set fld upd h = (if fld \<in> supported_fields h then (True, upd h) else (False, h))"

text \<open>
  The string that \<open>strncpy\<close> into a buffer one byte longer, terminated, yields: the bytes
  of the array before its first NUL.
\<close>

definition c_string :: "byte list \<Rightarrow> byte list" where
  "c_string bs = takeWhile (\<lambda>b. b \<noteq> 0) bs"

text \<open>\<open>android_set_header\<close>; the disjunction stops at the first setter that fails.\<close>

definition android_set_header :: "AndroidHeader \<Rightarrow> Header \<Rightarrow> ret \<times> Header" where
  "android_set_header h header =
     (let h0 = header\<lparr>supported_fields := SUPPORTED_FIELDS\<rparr> in
      case header_set HEADER_FIELD_BOARD_NAME (\<lambda>x. x\<lparr>board_name := Some (c_string (name h))\<rparr>) h0 of
        (ok1, h1) \<Rightarrow> if \<not> ok1 then (RET_UNSUPPORTED, h1) else
      case header_set HEADER_FIELD_KERNEL_CMDLINE
             (\<lambda>x. x\<lparr>kernel_cmdline := Some (c_string (cmdline h))\<rparr>) h1 of
        (ok2, h2) \<Rightarrow> if \<not> ok2 then (RET_UNSUPPORTED, h2) else
      case header_set HEADER_FIELD_PAGE_SIZE
             (\<lambda>x. x\<lparr>header_page_size := Some (page_size h)\<rparr>) h2 of
        (ok3, h3) \<Rightarrow> if \<not> ok3 then (RET_UNSUPPORTED, h3) else
      case header_set HEADER_FIELD_KERNEL_ADDRESS
             (\<lambda>x. x\<lparr>kernel_address := Some (kernel_addr h)\<rparr>) h3 of
        (ok4, h4) \<Rightarrow> if \<not> ok4 then (RET_UNSUPPORTED, h4) else
      case header_set HEADER_FIELD_RAMDISK_ADDRESS
             (\<lambda>x. x\<lparr>ramdisk_address := Some (ramdisk_addr h)\<rparr>) h4 of
        (ok5, h5) \<Rightarrow> if \<not> ok5 then (RET_UNSUPPORTED, h5) else
      case header_set HEADER_FIELD_SECONDBOOT_ADDRESS
             (\<lambda>x. x\<lparr>secondboot_address := Some (second_addr h)\<rparr>) h5 of
        (ok6, h6) \<Rightarrow> if \<not> ok6 then (RET_UNSUPPORTED, h6) else
      case header_set HEADER_FIELD_KERNEL_TAGS_ADDRESS
             (\<lambda>x. x\<lparr>kernel_tags_address := Some (tags_addr h)\<rparr>) h6 of
        (ok7, h7) \<Rightarrow> if \<not> ok7 then (RET_UNSUPPORTED, h7) else (RET_OK, h7))"

text \<open>
  The part of \<open>android_reader_read_header\<close> that computes the offsets and rebuilds the
  table, for the page size read back from the logical header.
\<close>

definition android_build_segments ::
  "params \<Rightarrow> AndroidReaderCtx \<Rightarrow> u32 \<Rightarrow> ret \<times> AndroidReaderCtx" where
  "android_build_segments K ctx psize =
     (let pos0 = 0 + header_offset ctx;
          pos1 = pos0 + of_nat (sizeof_AndroidHeader K);
          pos2 = pos1 + align_page_size pos1 (ucast psize);
          kernel_offset = pos2;
          pos3 = pos2 + ucast (kernel_size (hdr ctx));
          pos4 = pos3 + align_page_size pos3 (ucast psize);
          ramdisk_offset = pos4;
          pos5 = pos4 + ucast (ramdisk_size (hdr ctx));
          pos6 = pos5 + align_page_size pos5 (ucast psize);
          second_offset = pos6;
          pos7 = pos6 + ucast (second_size (hdr ctx));
          pos8 = pos7 + align_page_size pos7 (ucast psize);
          dt_offset = pos8;
          sg0 = sr_entries_clear (seg ctx)
      in case sr_entries_add sg0 ENTRY_TYPE_KERNEL kernel_offset
                (ucast (kernel_size (hdr ctx))) False of
           (r1, sg1) \<Rightarrow> if r1 \<noteq> RET_OK then (r1, ctx\<lparr>seg := sg1\<rparr>) else
         case sr_entries_add sg1 ENTRY_TYPE_RAMDISK ramdisk_offset
                (ucast (ramdisk_size (hdr ctx))) False of
           (r2, sg2) \<Rightarrow> if r2 \<noteq> RET_OK then (r2, ctx\<lparr>seg := sg2\<rparr>) else
         case (if second_size (hdr ctx) > 0
               then sr_entries_add sg2 ENTRY_TYPE_SECONDBOOT second_offset
                      (ucast (second_size (hdr ctx))) False
               else (RET_OK, sg2)) of
           (r3, sg3) \<Rightarrow> if r3 \<noteq> RET_OK then (r3, ctx\<lparr>seg := sg3\<rparr>) else
         case (if dt_size (hdr ctx) > 0
               then sr_entries_add sg3 ENTRY_TYPE_DEVICE_TREE dt_offset
                      (ucast (dt_size (hdr ctx))) (allow_truncated_dt ctx)
               else (RET_OK, sg3)) of
           (r4, sg4) \<Rightarrow> if r4 \<noteq> RET_OK then (r4, ctx\<lparr>seg := sg4\<rparr>) else
         (RET_OK, ctx\<lparr>seg := sg4\<rparr>))"

text \<open>
  \<open>android_reader_read_header\<close>. The result is \<open>None\<close> where the source dereferences an
  empty optional (\<open>*header.page_size()\<close> when the logical header holds no page size).
\<close>

definition android_reader_read_header ::
  "params \<Rightarrow> AndroidReaderCtx \<Rightarrow> File \<Rightarrow> Header
     \<Rightarrow> (ret \<times> AndroidReaderCtx \<times> Header \<times> File) option" where
  "android_reader_read_header K ctx f header =
     (case (if \<not> have_header_offset ctx then
              (case find_android_header K f (MAX_HEADER_OFFSET K) (hdr ctx)
                      (header_offset ctx) of
                 (r, h, off, f1) \<Rightarrow>
                   if ret_negative r
                   then Inl (r, ctx\<lparr>hdr := h, header_offset := off\<rparr>, f1)
                   else Inr (ctx\<lparr>hdr := h, header_offset := off,
                                have_header_offset := True\<rparr>, f1))
            else Inr (ctx, f)) of
        Inl (r, ctx1, f1) \<Rightarrow> Some (r, ctx1, header, f1)
      | Inr (ctx1, f1) \<Rightarrow>
          (case android_set_header (hdr ctx1) header of
             (r2, header1) \<Rightarrow>
               if r2 \<noteq> RET_OK then Some (r2, ctx1, header1, f1)
               else
                 (case header_page_size header1 of
                    None \<Rightarrow> None
                  | Some psize \<Rightarrow>
                      (case android_build_segments K ctx1 psize of
                         (r3, ctx2) \<Rightarrow> Some (r3, ctx2, header1, f1)))))"

subsection \<open>Aligned positions, as the specification describes them\<close>

text \<open>
  A position aligned up to the page size; the tail offset of the specification: starting
  at 0, add the page size, then for each of the kernel, ramdisk, second bootloader and
  device tree sizes, in this order, add the size and align the position up to the page
  size.
\<close>

definition align_up :: "u64 \<Rightarrow> u64 \<Rightarrow> u64" where
  "align_up pos psize = pos + align_page_size pos psize"

definition tail_offset :: "AndroidHeader \<Rightarrow> u64" where
  "tail_offset h =
     foldl (\<lambda>pos sz. align_up (pos + ucast sz) (ucast (page_size h)))
       (0 + ucast (page_size h))
       [kernel_size h, ramdisk_size h, second_size h, dt_size h]"

subsection \<open>The segment table, as the specification describes it\<close>

text \<open>
  The table that the specification prescribes for a header found at \<open>header_offset\<close>: the
  kernel starts at the end of the header aligned up to the page size, every later section
  at the end of the section before it aligned up; the kernel and the ramdisk are always
  listed, the second bootloader and the device tree only with a size greater than 0, the
  device tree with \<open>can_truncate\<close> equal to \<open>allow_truncated_dt\<close>.
\<close>

definition built_entries :: "params \<Rightarrow> AndroidReaderCtx \<Rightarrow> u64 \<Rightarrow> SegmentReaderEntry list" where
  "built_entries K ctx ps =
     (let kernel_offset = align_up (header_offset ctx + of_nat (sizeof_AndroidHeader K)) ps;
          ramdisk_offset = align_up (kernel_offset + ucast (kernel_size (hdr ctx))) ps;
          second_offset = align_up (ramdisk_offset + ucast (ramdisk_size (hdr ctx))) ps;
          dt_offset = align_up (second_offset + ucast (second_size (hdr ctx))) ps
      in [\<lparr>sr_type = ENTRY_TYPE_KERNEL, sr_offset = kernel_offset,
            sr_size = ucast (kernel_size (hdr ctx)), can_truncate = False\<rparr>,
          \<lparr>sr_type = ENTRY_TYPE_RAMDISK, sr_offset = ramdisk_offset,
            sr_size = ucast (ramdisk_size (hdr ctx)), can_truncate = False\<rparr>]
         @ (if second_size (hdr ctx) > 0
            then [\<lparr>sr_type = ENTRY_TYPE_SECONDBOOT, sr_offset = second_offset,
                    sr_size = ucast (second_size (hdr ctx)), can_truncate = False\<rparr>]
            else [])
         @ (if dt_size (hdr ctx) > 0
            then [\<lparr>sr_type = ENTRY_TYPE_DEVICE_TREE, sr_offset = dt_offset,
                    sr_size = ucast (dt_size (hdr ctx)), can_truncate = allow_truncated_dt ctx\<rparr>]
            else []))"

subsection \<open>Example states\<close>

text \<open>
  A writer whose current entry is a kernel of a given size, aligned to 2048 bytes, and a
  file positioned at offset 100.
\<close>

definition example_kernel_ctx :: "u64 \<Rightarrow> MtkWriterCtx" where
  "example_kernel_ctx sz =
     \<lparr>mtk_hdr = zero_AndroidHeader, have_file_size = False, file_size = 0,
      mtk_seg = \<lparr>sw_entries = [\<lparr>sw_type = ENTRY_TYPE_KERNEL, sw_offset = 2560,
                                sw_size = sz, sw_align = 2048\<rparr>],
                 sw_cursor = Some 0\<rparr>\<rparr>"

definition example_file :: File where
  "example_file = \<lparr>content = [], fpos = 100, script = [], is_fatal = False, ops = []\<rparr>"

text \<open>
  An instance of the parameters: the constants and the header layout of the Android boot
  image format (the magic and ten little-endian 32-bit fields, then \<open>name\<close>, \<open>cmdline\<close> and
  \<open>id\<close>: 608 bytes), the offset 4 of the \<open>size\<close> field in the MTK header, and a function
  with results of 20 bytes that stands for the digest.
\<close>

definition u32_of_le :: "byte list \<Rightarrow> u32" where
  "u32_of_le bs =
     ucast (bs ! 0) OR push_bit 8 (ucast (bs ! 1)) OR push_bit 16 (ucast (bs ! 2))
       OR push_bit 24 (ucast (bs ! 3))"

definition example_decode :: "byte list \<Rightarrow> AndroidHeader" where
  "example_decode bs =
     \<lparr>magic = take 8 bs,
      kernel_size = u32_of_le (take 4 (drop 8 bs)),
      kernel_addr = u32_of_le (take 4 (drop 12 bs)),
      ramdisk_size = u32_of_le (take 4 (drop 16 bs)),
      ramdisk_addr = u32_of_le (take 4 (drop 20 bs)),
      second_size = u32_of_le (take 4 (drop 24 bs)),
      second_addr = u32_of_le (take 4 (drop 28 bs)),
      tags_addr = u32_of_le (take 4 (drop 32 bs)),
      page_size = u32_of_le (take 4 (drop 36 bs)),
      dt_size = u32_of_le (take 4 (drop 40 bs)),
      unused = u32_of_le (take 4 (drop 44 bs)),
      name = take 16 (drop 48 bs),
      cmdline = take 512 (drop 64 bs),
      id_field = take 32 (drop 576 bs)\<rparr>"

definition example_encode :: "AndroidHeader \<Rightarrow> byte list" where
  "example_encode h =
     magic h @ le32 (kernel_size h) @ le32 (kernel_addr h) @ le32 (ramdisk_size h)
       @ le32 (ramdisk_addr h) @ le32 (second_size h) @ le32 (second_addr h)
       @ le32 (tags_addr h) @ le32 (page_size h) @ le32 (dt_size h) @ le32 (unused h)
       @ name h @ cmdline h @ id_field h"

definition example_params :: params where
  "example_params =
     \<lparr>MAX_HEADER_OFFSET = 512,
      sizeof_AndroidHeader = 608,
      SAMSUNG_SEANDROID_MAGIC =
        [0x53, 0x45, 0x41, 0x4E, 0x44, 0x52, 0x4F, 0x49, 0x44, 0x45, 0x4E, 0x46, 0x4F, 0x52,
         0x43, 0x45],
      BUMP_MAGIC =
        [0x41, 0xA9, 0xE4, 0x67, 0x74, 0x4D, 0x1D, 0x1B, 0xA4, 0x29, 0xF2, 0xEC, 0xEA, 0x65,
         0x52, 0x79],
      offsetof_MtkHeader_size = 4,
      decode_AndroidHeader = example_decode,
      encode_AndroidHeader = example_encode\<rparr>"

definition example_sha :: "byte list \<Rightarrow> byte list" where
  "example_sha bs = replicate 20 (of_nat (length bs))"

text \<open>
  The MTK writer of scenario S3 of the specification when all entries are written: a page
  size of 2048, an MTK header of 512 bytes and a kernel of 1024 bytes, an MTK header of
  512 bytes and a ramdisk of 2048 bytes, no second bootloader and no device tree; the
  cursor is exhausted and the position is 8192. \<open>example_mtk_file\<close> holds the 6656 bytes
  written so far; \<open>example_mtk_file_stale\<close> is the same image written into a file that
  was 16384 bytes long before.
\<close>

definition example_mtk_ctx :: MtkWriterCtx where
  "example_mtk_ctx =
     \<lparr>mtk_hdr = zero_AndroidHeader
        \<lparr>magic := BOOT_MAGIC, page_size := 2048, kernel_size := 1536, ramdisk_size := 2560\<rparr>,
      have_file_size = False, file_size = 0,
      mtk_seg =
        \<lparr>sw_entries =
           [\<lparr>sw_type = ENTRY_TYPE_MTK_KERNEL_HEADER, sw_offset = 2048, sw_size = 512,
              sw_align = 0\<rparr>,
            \<lparr>sw_type = ENTRY_TYPE_KERNEL, sw_offset = 2560, sw_size = 1024, sw_align = 2048\<rparr>,
            \<lparr>sw_type = ENTRY_TYPE_MTK_RAMDISK_HEADER, sw_offset = 4096, sw_size = 512,
              sw_align = 0\<rparr>,
            \<lparr>sw_type = ENTRY_TYPE_RAMDISK, sw_offset = 4608, sw_size = 2048, sw_align = 2048\<rparr>,
            \<lparr>sw_type = ENTRY_TYPE_SECONDBOOT, sw_offset = 8192, sw_size = 0, sw_align = 2048\<rparr>,
            \<lparr>sw_type = ENTRY_TYPE_DEVICE_TREE, sw_offset = 8192, sw_size = 0,
              sw_align = 2048\<rparr>],
         sw_cursor = None\<rparr>\<rparr>"

definition example_mtk_image :: "byte list" where
  "example_mtk_image =
     replicate 2048 0 @ replicate 512 1 @ replicate 1024 0xAA @ replicate 512 0
       @ replicate 512 2 @ replicate 2048 0xBB"

definition example_mtk_file :: File where
  "example_mtk_file =
     \<lparr>content = example_mtk_image, fpos = 8192, script = [], is_fatal = False, ops = []\<rparr>"

definition example_stale_image :: "byte list" where
  "example_stale_image = example_mtk_image @ replicate 9728 0xEE"

definition example_mtk_file_stale :: File where
  "example_mtk_file_stale =
     \<lparr>content = example_stale_image, fpos = 8192, script = [], is_fatal = False, ops = []\<rparr>"

text \<open>
  A small table in the layout of the MTK writer and a file of 20 bytes numbered from 0:
  an MTK kernel header of 2 bytes at offset 4, a kernel of 3 bytes at offset 6, an MTK
  ramdisk header of 2 bytes at offset 12, a ramdisk of 1 byte at offset 14, and an empty
  second bootloader and device tree.
\<close>

definition example_small_seg :: SegmentWriter where
  "example_small_seg =
     \<lparr>sw_entries =
        [\<lparr>sw_type = ENTRY_TYPE_MTK_KERNEL_HEADER, sw_offset = 4, sw_size = 2, sw_align = 0\<rparr>,
         \<lparr>sw_type = ENTRY_TYPE_KERNEL, sw_offset = 6, sw_size = 3, sw_align = 4\<rparr>,
         \<lparr>sw_type = ENTRY_TYPE_MTK_RAMDISK_HEADER, sw_offset = 12, sw_size = 2, sw_align = 0\<rparr>,
         \<lparr>sw_type = ENTRY_TYPE_RAMDISK, sw_offset = 14, sw_size = 1, sw_align = 4\<rparr>,
         \<lparr>sw_type = ENTRY_TYPE_SECONDBOOT, sw_offset = 16, sw_size = 0, sw_align = 4\<rparr>,
         \<lparr>sw_type = ENTRY_TYPE_DEVICE_TREE, sw_offset = 16, sw_size = 0, sw_align = 4\<rparr>],
      sw_cursor = None\<rparr>"

definition example_small_file :: File where
  "example_small_file =
     \<lparr>content = [0, 1, 2, 3, 4, 5, 6, 7, 8, 9, 10, 11, 12, 13, 14, 15, 16, 17, 18, 19],
      fpos = 16, script = [], is_fatal = False, ops = []\<rparr>"

text \<open>
  The Android images of scenarios S1, S2 and S4 of the specification: a page size of
  2048, a kernel of 100 bytes and a ramdisk of 50 bytes, no second bootloader and no device
  tree; the header is at offset 0, the kernel at 2048, the ramdisk at 4096, and the image
  ends at 6144. \<open>example_s1_file\<close> holds the image alone, \<open>example_s2_file\<close> the image followed
  by the Samsung magic, \<open>example_s4_file\<close> the image followed by the Bump magic.
\<close>

definition example_android_hdr :: AndroidHeader where
  "example_android_hdr =
     zero_AndroidHeader
       \<lparr>magic := BOOT_MAGIC, kernel_size := 100, ramdisk_size := 50, page_size := 2048\<rparr>"

definition example_android_image :: "byte list" where
  "example_android_image =
     example_encode example_android_hdr @ replicate 1440 0 @ replicate 100 1
       @ replicate 1948 0 @ replicate 50 2 @ replicate 1998 0"

definition example_s1_file :: File where
  "example_s1_file =
     \<lparr>content = example_android_image, fpos = 0, script = [], is_fatal = False, ops = []\<rparr>"

definition example_s2_file :: File where
  "example_s2_file =
     \<lparr>content = example_android_image @ SAMSUNG_SEANDROID_MAGIC example_params, fpos = 0,
      script = [], is_fatal = False, ops = []\<rparr>"

definition example_s4_file :: File where
  "example_s4_file =
     \<lparr>content = example_android_image @ BUMP_MAGIC example_params, fpos = 0,
      script = [], is_fatal = False, ops = []\<rparr>"

definition empty_Header :: Header where
  "empty_Header =
     \<lparr>supported_fields = {}, board_name = None, kernel_cmdline = None,
      header_page_size = None, kernel_address = None, ramdisk_address = None,
      secondboot_address = None, kernel_tags_address = None\<rparr>"

section \<open>Properties\<close>

subsection \<open>C strings\<close>

lemma strcmp_eq_0: "strcmp a b = 0 \<longleftrightarrow> a = b"
  by (induction a b rule: strcmp.induct) auto

lemma strcasecmp_eq_0: "strcasecmp a b = 0 \<longleftrightarrow> map tolower a = map tolower b"
  by (simp add: strcasecmp_def strcmp_eq_0)

subsection \<open>The option \<open>strict\<close>\<close>

text \<open>
  Claim C7. \<open>android_reader_set_option\<close> with the key \<open>strict\<close> returns \<open>RET_OK\<close> and sets
  \<open>allow_truncated_dt\<close> to false exactly when the value equals \<open>true\<close>, \<open>yes\<close> or \<open>y\<close> up to
  the case of its letters, or is exactly \<open>1\<close>; every other value sets it to true. With any
  other key the call changes nothing and returns \<open>RET_WARN\<close>, the code by which the source
  reports an option it does not know. The context made by
  \<open>mb_bi_reader_enable_format_android\<close> has \<open>allow_truncated_dt\<close> set.
\<close>

theorem android_reader_set_option_strict:
  "android_reader_set_option ctx ''strict'' v =
     (RET_OK, ctx\<lparr>allow_truncated_dt :=
        \<not> (map tolower v = ''true'' \<or> map tolower v = ''yes'' \<or> map tolower v = ''y''
           \<or> v = ''1'')\<rparr>)
   \<and> (key \<noteq> ''strict'' \<longrightarrow> android_reader_set_option ctx key v = (RET_WARN, ctx))
   \<and> allow_truncated_dt mb_bi_reader_enable_format_android"
  by (simp add: android_reader_set_option_def strcmp_eq_0 strcasecmp_eq_0 tolower_def
      mb_bi_reader_enable_format_android_def)

theorem android_reader_set_option_strict_witness:
  "android_reader_set_option mb_bi_reader_enable_format_android ''strict'' ''TRUE''
     = (RET_OK, mb_bi_reader_enable_format_android\<lparr>allow_truncated_dt := False\<rparr>)
   \<and> android_reader_set_option mb_bi_reader_enable_format_android ''strict'' ''false''
     = (RET_OK, mb_bi_reader_enable_format_android\<lparr>allow_truncated_dt := True\<rparr>)
   \<and> android_reader_set_option mb_bi_reader_enable_format_android ''strict'' []
     = (RET_OK, mb_bi_reader_enable_format_android\<lparr>allow_truncated_dt := True\<rparr>)
   \<and> android_reader_set_option mb_bi_reader_enable_format_android ''Strict'' ''TRUE''
     = (RET_WARN, mb_bi_reader_enable_format_android)"
  using android_reader_set_option_strict
          [of mb_bi_reader_enable_format_android "''TRUE''" "''Strict''"]
        android_reader_set_option_strict
          [of mb_bi_reader_enable_format_android "''false''" "''Strict''"]
        android_reader_set_option_strict
          [of mb_bi_reader_enable_format_android "[]" "''Strict''"]
  by (simp add: tolower_def)

subsection \<open>Finishing an entry of the MTK writer\<close>

lemma unat_ucast_add_sizeof:
  "unat (ucast (x + sizeof_MtkHeader) :: u32) = (unat x + unat sizeof_MtkHeader) mod 2 ^ 32"
proof -
  have "unat (ucast (x + sizeof_MtkHeader) :: u32) = unat (x + sizeof_MtkHeader) mod 2 ^ 32"
    by (simp add: unsigned_ucast_eq take_bit_eq_mod)
  also have "\<dots> = ((unat x + unat sizeof_MtkHeader) mod 2 ^ 64) mod 2 ^ 32"
    by (simp add: unat_word_ariths)
  also have "\<dots> = (unat x + unat sizeof_MtkHeader) mod 2 ^ 32"
    by (rule mod_mod_cancel) simp
  finally show ?thesis .
qed

lemma example_sw_finish_entry:
  "sw_finish_entry (mtk_seg (example_kernel_ctx sz)) example_file =
     (RET_OK, mtk_seg (example_kernel_ctx sz),
      example_file\<lparr>fpos := 2048, ops := [OpSeek 1948 SEEK_CUR]\<rparr>)"
  by (simp add: sw_finish_entry_def example_kernel_ctx_def example_file_def sw_entry_def
      file_seek_def logged_def next_outcome_def align_page_size_def)

lemma example_sw_entry:
  "sw_entry (mtk_seg (example_kernel_ctx sz)) =
     Some \<lparr>sw_type = ENTRY_TYPE_KERNEL, sw_offset = 2560, sw_size = sz, sw_align = 2048\<rparr>"
  by (simp add: sw_entry_def example_kernel_ctx_def)

text \<open>
  Claim C3. Once the segment engine has finished the entry \<open>e\<close> (its \<open>finish_entry\<close>
  returned \<open>RET_OK\<close>), \<open>mtk_writer_finish_entry\<close> returns \<open>RET_FATAL\<close>, leaving the header as it
  was, when \<open>e\<close> is a kernel or a ramdisk of size exactly \<open>UINT32_MAX - sizeof(MtkHeader)\<close>,
  and when \<open>e\<close> is an MTK kernel or ramdisk header of a size other than
  \<open>sizeof(MtkHeader)\<close>. In every other case it returns \<open>RET_OK\<close> and the header field of the
  entry's type is updated: \<open>kernel_size\<close> and \<open>ramdisk_size\<close> to the size plus
  \<open>sizeof(MtkHeader)\<close>, \<open>second_size\<close> and \<open>dt_size\<close> to the size (an MTK header entry
  changes no field).
\<close>

theorem mtk_writer_finish_entry_result:
  assumes "sw_finish_entry (mtk_seg ctx) f = (RET_OK, sg, f1)"
      and "sw_entry sg = Some e"
  shows "mtk_writer_finish_entry ctx f =
     Some (if (sw_type e = ENTRY_TYPE_KERNEL \<or> sw_type e = ENTRY_TYPE_RAMDISK)
               \<and> sw_size e = ucast UINT32_MAX - sizeof_MtkHeader
           then (RET_FATAL, ctx\<lparr>mtk_seg := sg\<rparr>, f1)
           else if (sw_type e = ENTRY_TYPE_MTK_KERNEL_HEADER
                     \<or> sw_type e = ENTRY_TYPE_MTK_RAMDISK_HEADER)
               \<and> sw_size e \<noteq> sizeof_MtkHeader
           then (RET_FATAL, ctx\<lparr>mtk_seg := sg\<rparr>, f1)
           else (RET_OK,
                 ctx\<lparr>mtk_seg := sg,
                     mtk_hdr :=
                       (if sw_type e = ENTRY_TYPE_KERNEL
                        then (mtk_hdr ctx)\<lparr>kernel_size := ucast (sw_size e + sizeof_MtkHeader)\<rparr>
                        else if sw_type e = ENTRY_TYPE_RAMDISK
                        then (mtk_hdr ctx)\<lparr>ramdisk_size := ucast (sw_size e + sizeof_MtkHeader)\<rparr>
                        else if sw_type e = ENTRY_TYPE_SECONDBOOT
                        then (mtk_hdr ctx)\<lparr>second_size := ucast (sw_size e)\<rparr>
                        else if sw_type e = ENTRY_TYPE_DEVICE_TREE
                        then (mtk_hdr ctx)\<lparr>dt_size := ucast (sw_size e)\<rparr>
                        else mtk_hdr ctx)\<rparr>, f1))"
  using assms
  by (cases "sw_type e") (simp_all add: mtk_writer_finish_entry_def)

theorem mtk_writer_finish_entry_result_witness:
  "mtk_writer_finish_entry (example_kernel_ctx 0xFFFFFDFF) example_file =
     Some (RET_FATAL, example_kernel_ctx 0xFFFFFDFF,
           example_file\<lparr>fpos := 2048, ops := [OpSeek 1948 SEEK_CUR]\<rparr>)
   \<and> mtk_writer_finish_entry (example_kernel_ctx 1024) example_file =
     Some (RET_OK,
           (example_kernel_ctx 1024)\<lparr>mtk_hdr := zero_AndroidHeader\<lparr>kernel_size := 1536\<rparr>\<rparr>,
           example_file\<lparr>fpos := 2048, ops := [OpSeek 1948 SEEK_CUR]\<rparr>)"
  using mtk_writer_finish_entry_result
          [OF example_sw_finish_entry example_sw_entry, of "0xFFFFFDFF"]
        mtk_writer_finish_entry_result
          [OF example_sw_finish_entry example_sw_entry, of 1024]
  by (simp add: UINT32_MAX_def sizeof_MtkHeader_def example_kernel_ctx_def)

text \<open>
  Claim C10. For a finished kernel or ramdisk entry, \<open>mtk_writer_finish_entry\<close> rejects the
  single size \<open>UINT32_MAX - sizeof(MtkHeader)\<close> only: with any other size, so with every
  64-bit size strictly greater than it, the call returns \<open>RET_OK\<close>, and the value stored in
  the 32-bit field \<open>kernel_size\<close> (\<open>ramdisk_size\<close> for a ramdisk) is the size plus
  \<open>sizeof(MtkHeader)\<close> reduced modulo \<open>2^32\<close>.
\<close>

theorem mtk_writer_finish_entry_oversize:
  assumes "sw_finish_entry (mtk_seg ctx) f = (RET_OK, sg, f1)"
      and "sw_entry sg = Some e"
      and "sw_type e = ENTRY_TYPE_KERNEL \<or> sw_type e = ENTRY_TYPE_RAMDISK"
  shows "(sw_size e = ucast UINT32_MAX - sizeof_MtkHeader \<longrightarrow>
            mtk_writer_finish_entry ctx f = Some (RET_FATAL, ctx\<lparr>mtk_seg := sg\<rparr>, f1))
       \<and> (sw_size e \<noteq> ucast UINT32_MAX - sizeof_MtkHeader \<longrightarrow>
            (\<exists>ctx'. mtk_writer_finish_entry ctx f = Some (RET_OK, ctx', f1)
               \<and> unat (if sw_type e = ENTRY_TYPE_KERNEL then kernel_size (mtk_hdr ctx')
                        else ramdisk_size (mtk_hdr ctx'))
                   = (unat (sw_size e) + unat sizeof_MtkHeader) mod 2 ^ 32))
       \<and> (ucast UINT32_MAX - sizeof_MtkHeader < sw_size e \<longrightarrow>
            (\<exists>ctx'. mtk_writer_finish_entry ctx f = Some (RET_OK, ctx', f1)))"
proof -
  have "sw_size e \<noteq> ucast UINT32_MAX - sizeof_MtkHeader"
    if "ucast UINT32_MAX - sizeof_MtkHeader < sw_size e"
    using that by simp
  with assms show ?thesis
    by (auto simp add: mtk_writer_finish_entry_def unat_ucast_add_sizeof)
qed

theorem mtk_writer_finish_entry_oversize_witness:
  "(\<exists>ctx'. mtk_writer_finish_entry (example_kernel_ctx 0x100000005) example_file =
            Some (RET_OK, ctx', example_file\<lparr>fpos := 2048, ops := [OpSeek 1948 SEEK_CUR]\<rparr>)
         \<and> unat (kernel_size (mtk_hdr ctx')) = 517)
   \<and> (\<exists>ctx'. mtk_writer_finish_entry (example_kernel_ctx 0xFFFFFFFF) example_file =
            Some (RET_OK, ctx', example_file\<lparr>fpos := 2048, ops := [OpSeek 1948 SEEK_CUR]\<rparr>)
         \<and> unat (kernel_size (mtk_hdr ctx')) = 511)"
  using mtk_writer_finish_entry_oversize
          [OF example_sw_finish_entry example_sw_entry, of "0x100000005"]
        mtk_writer_finish_entry_oversize
          [OF example_sw_finish_entry example_sw_entry, of "0xFFFFFFFF"]
  by (simp add: UINT32_MAX_def sizeof_MtkHeader_def)

subsection \<open>File operations that do not fail\<close>

lemma file_seek_set_ok:
  "script f = [] \<Longrightarrow> 0 \<le> off \<Longrightarrow>
   file_seek f off SEEK_SET = (True, nat off, f\<lparr>fpos := nat off, ops := ops f @ [OpSeek off SEEK_SET]\<rparr>)"
  by (simp add: file_seek_def logged_def next_outcome_def)

lemma file_read_fully_ok:
  "script f = [] \<Longrightarrow>
   file_read_fully f n =
     (True, take n (drop (fpos f) (content f)),
      f\<lparr>fpos := fpos f + length (take n (drop (fpos f) (content f))), ops := ops f @ [OpRead n]\<rparr>)"
  by (simp add: file_read_fully_def logged_def next_outcome_def Let_def)

lemma unat_min_chunk: "unat (min remain (10240::u64)) = min (unat remain) 10240"
  by (simp add: min_def word_le_nat_alt)

lemma unat_sub_chunk:
  "unat (remain - min remain (10240::u64)) = unat remain - min (unat remain) 10240"
proof -
  have "min remain 10240 \<le> remain" by simp
  then show ?thesis by (simp add: unat_sub unat_min_chunk)
qed

lemma sha1_update_data_ok:
  "script f = [] \<Longrightarrow> fpos f + unat remain \<le> length (content f) \<Longrightarrow>
   \<exists>f'. sha1_update_data (sha1_stream H) c f remain =
          (RET_OK, c @ take (unat remain) (drop (fpos f) (content f)), f')
      \<and> content f' = content f \<and> script f' = [] \<and> fpos f' = fpos f + unat remain
      \<and> (\<exists>new. ops f' = ops f @ new \<and> list_all digest_pass_op new)"
proof (induction "sha1_stream H" c f remain rule: sha1_update_data.induct)
  case (1 c f remain)
  show ?case
  proof (cases "0 < remain")
    case False
    then have "remain = 0" by (simp add: word_gt_0)
    with 1(2) show ?thesis by (simp add: sha1_update_data.simps)
  next
    case True
    let ?n = "min (unat remain) 10240"
    let ?bs = "take ?n (drop (fpos f) (content f))"
    let ?f1 = "f\<lparr>fpos := fpos f + length ?bs, ops := ops f @ [OpRead ?n]\<rparr>"
    have rd: "file_read_fully f (unat (min remain 10240)) = (True, ?bs, ?f1)"
      using 1(2) by (simp add: file_read_fully_ok unat_min_chunk)
    have len: "length ?bs = ?n"
      using 1(3) by simp
    have upd: "SHA1_Update (sha1_stream H) c ?bs = Some (c @ ?bs)"
      by (simp add: sha1_stream_def)
    have s1: "script ?f1 = []" using 1(2) by simp
    have b1: "fpos ?f1 + unat (remain - min remain 10240) \<le> length (content ?f1)"
      using 1(3) len by (simp add: unat_sub_chunk)
    have nn: "\<not> \<not> True" by simp
    have nl: "\<not> length ?bs \<noteq> unat (min remain 10240)"
      using len by (simp add: unat_min_chunk)
    from 1(1) [OF True rd [symmetric] refl nn nl upd s1 b1] len
    obtain f' where
      r: "sha1_update_data (sha1_stream H) (c @ ?bs) ?f1 (remain - min remain 10240) =
           (RET_OK, (c @ ?bs) @ take (unat (remain - min remain 10240)) (drop (fpos ?f1) (content ?f1)), f')"
      and p: "content f' = content ?f1" "script f' = []" "fpos f' = fpos ?f1 + unat (remain - min remain 10240)"
      and o: "\<exists>new. ops f' = ops ?f1 @ new \<and> list_all digest_pass_op new"
      by (auto simp add: unat_min_chunk)
    from o obtain new where "ops f' = ops f @ (OpRead ?n # new)" "list_all digest_pass_op new"
      by auto
    then have o': "\<exists>new. ops f' = ops f @ new \<and> list_all digest_pass_op new"
      by (intro exI [of _ "OpRead ?n # new"]) (simp add: digest_pass_op_def)
    have cat: "?bs @ take (unat remain - ?n) (drop (fpos f + ?n) (content f))
               = take (unat remain) (drop (fpos f) (content f))"
    proof -
      have "take (unat remain) (drop (fpos f) (content f))
            = take (?n + (unat remain - ?n)) (drop (fpos f) (content f))"
        by simp
      also have "\<dots> = ?bs @ take (unat remain - ?n) (drop ?n (drop (fpos f) (content f)))"
        by (rule take_add)
      finally show ?thesis by (simp add: add.commute)
    qed
    have "sha1_update_data (sha1_stream H) c f remain =
            sha1_update_data (sha1_stream H) (c @ ?bs) ?f1 (remain - min remain 10240)"
      using True rd len upd
      by (subst sha1_update_data.simps) (simp add: unat_min_chunk)
    with r p len cat o' show ?thesis
      by (simp add: unat_sub_chunk)
  qed
qed

lemma ucast_add_ucast_ucast:
  "(ucast ((a::u64) + ucast (ucast (b::u64) :: u32)) :: u32) = ucast (a + b)"
proof -
  have "unat (ucast (a + ucast (ucast b :: u32)) :: u32)
        = ((unat a + unat b mod 2 ^ 32) mod 2 ^ 64) mod 2 ^ 32"
    by (simp add: unsigned_ucast_eq take_bit_eq_mod unat_word_ariths)
  also have "\<dots> = (unat a + unat b mod 2 ^ 32) mod 2 ^ 32"
    by (rule mod_mod_cancel) simp
  also have "\<dots> = (unat a + unat b) mod 2 ^ 32"
    by (simp add: mod_add_right_eq)
  also have "\<dots> = ((unat a + unat b) mod 2 ^ 64) mod 2 ^ 32"
    by (rule mod_mod_cancel [symmetric]) simp
  also have "\<dots> = unat (ucast (a + b) :: u32)"
    by (simp add: unsigned_ucast_eq take_bit_eq_mod unat_word_ariths)
  finally show ?thesis
    by (simp add: word_unat_eq_iff)
qed

lemma fed_bytes_mtk_layout:
  assumes "map sw_type tbl = mtk_layout"
  shows "fed_bytes d 0 0 tbl = digest_input tbl d"
proof -
  from assms obtain e1 e2 e3 e4 e5 e6 where
    tbl: "tbl = [e1, e2, e3, e4, e5, e6]"
    and t: "sw_type e1 = ENTRY_TYPE_MTK_KERNEL_HEADER" "sw_type e2 = ENTRY_TYPE_KERNEL"
      "sw_type e3 = ENTRY_TYPE_MTK_RAMDISK_HEADER" "sw_type e4 = ENTRY_TYPE_RAMDISK"
      "sw_type e5 = ENTRY_TYPE_SECONDBOOT" "sw_type e6 = ENTRY_TYPE_DEVICE_TREE"
    by (auto simp add: mtk_layout_def map_eq_Cons_conv)
  show ?thesis
    by (simp add: tbl t digest_input_def digest_size_term_def segment_size_def
        ucast_add_ucast_ucast)
qed

lemma mtk_sha1_entries_ok:
  "script f = [] \<Longrightarrow>
   \<forall>e \<in> set es. unat (sw_offset e) + unat (sw_size e) \<le> length (content f) \<Longrightarrow>
   \<exists>f'. mtk_sha1_entries (sha1_stream H) es c k r f =
          (RET_OK, c @ fed_bytes (content f) k r es, f')
      \<and> content f' = content f \<and> script f' = []
      \<and> (\<exists>new. ops f' = ops f @ new \<and> list_all digest_pass_op new)"
proof (induction es arbitrary: c k r f)
  case Nil
  then show ?case by simp
next
  case (Cons e es)
  let ?f1 = "f\<lparr>fpos := unat (sw_offset e), ops := ops f @ [OpSeek (uint (sw_offset e)) SEEK_SET]\<rparr>"
  have sk: "file_seek f (uint (sw_offset e)) SEEK_SET = (True, unat (sw_offset e), ?f1)"
    using Cons.prems(1) by (simp add: file_seek_set_ok)
  have "script ?f1 = []" "fpos ?f1 + unat (sw_size e) \<le> length (content ?f1)"
    using Cons.prems by simp_all
  from sha1_update_data_ok [OF this, of H c]
  obtain f2 where
    rd: "sha1_update_data (sha1_stream H) c ?f1 (sw_size e) = (RET_OK, c @ payload (content f) e, f2)"
    and f2: "content f2 = content f" "script f2 = []"
    and o2: "\<exists>new. ops f2 = ops ?f1 @ new \<and> list_all digest_pass_op new"
    by (auto simp add: payload_def)
  from o2 obtain new2 where n2: "ops f2 = ops f @ (OpSeek (uint (sw_offset e)) SEEK_SET # new2)"
    "list_all digest_pass_op new2"
    by auto
  have b2: "\<forall>e \<in> set es. unat (sw_offset e) + unat (sw_size e) \<le> length (content f2)"
    using Cons.prems(2) f2 by simp
  have IH: "\<exists>f'. mtk_sha1_entries (sha1_stream H) es c' k' r' f2 =
          (RET_OK, c' @ fed_bytes (content f) k' r' es, f')
      \<and> content f' = content f \<and> script f' = []
      \<and> (\<exists>new. ops f' = ops f @ new \<and> list_all digest_pass_op new)" for c' k' r'
  proof -
    from Cons.IH [OF f2(2) b2, of c' k' r'] obtain f' new where
      "mtk_sha1_entries (sha1_stream H) es c' k' r' f2 = (RET_OK, c' @ fed_bytes (content f2) k' r' es, f')"
      "content f' = content f2" "script f' = []" "ops f' = ops f2 @ new" "list_all digest_pass_op new"
      by auto
    with f2 n2 show ?thesis
      by (intro exI [of _ f']) (auto simp add: digest_pass_op_def intro!: exI [of _ "OpSeek (uint (sw_offset e)) SEEK_SET # new2 @ new"])
  qed
  have upd: "SHA1_Update (sha1_stream H) x y = Some (x @ y)" for x y
    by (simp add: sha1_stream_def)
  show ?case
  proof (cases "sw_type e")
    case ENTRY_TYPE_KERNEL
    with IH [of "(c @ payload (content f) e) @ le32 (ucast (sw_size e + ucast k))" k r] sk rd upd
    show ?thesis by simp
  next
    case ENTRY_TYPE_RAMDISK
    with IH [of "(c @ payload (content f) e) @ le32 (ucast (sw_size e + ucast r))" k r] sk rd upd
    show ?thesis by simp
  next
    case ENTRY_TYPE_SECONDBOOT
    with IH [of "(c @ payload (content f) e) @ le32 (ucast (sw_size e))" k r] sk rd upd
    show ?thesis by simp
  next
    case ENTRY_TYPE_DEVICE_TREE
    with IH [of "(c @ payload (content f) e) @ le32 (ucast (sw_size e))" k r]
      IH [of "c @ payload (content f) e" k r] sk rd upd
    show ?thesis by simp
  next
    case ENTRY_TYPE_MTK_KERNEL_HEADER
    with IH [of "c @ payload (content f) e" "ucast (sw_size e)" r] sk rd upd
    show ?thesis by simp
  next
    case ENTRY_TYPE_MTK_RAMDISK_HEADER
    with IH [of "c @ payload (content f) e" k "ucast (sw_size e)"] sk rd upd
    show ?thesis by simp
  qed
qed

lemma file_write_fully_ok:
  "script f = [] \<Longrightarrow>
   file_write_fully f bs =
     (True, length bs,
      f\<lparr>content := write_at (fpos f) bs (content f), fpos := fpos f + length bs,
        ops := ops f @ [OpWrite bs]\<rparr>)"
  by (simp add: file_write_fully_def logged_def next_outcome_def)

lemma file_truncate_ok:
  "script f = [] \<Longrightarrow>
   file_truncate f n = (True, f\<lparr>content := truncated n (content f), ops := ops f @ [OpTruncate n]\<rparr>)"
  by (simp add: file_truncate_def logged_def next_outcome_def truncated_def)

lemma ucast_sub_sizeof:
  "(ucast ((ucast (a::u32) :: u64) - sizeof_MtkHeader) :: u32) = a - 512"
proof -
  have "uint (ucast ((ucast a :: u64) - 512) :: u32) = ((uint a - 512) mod 2 ^ 64) mod 2 ^ 32"
    by (simp add: unsigned_ucast_eq take_bit_eq_mod uint_word_ariths mod_diff_left_eq)
  also have "\<dots> = (uint a - 512) mod 2 ^ 32"
    by (rule mod_mod_cancel) simp
  also have "\<dots> = uint (a - 512)"
    by (simp add: uint_word_ariths)
  finally show ?thesis
    by (simp add: sizeof_MtkHeader_def word_uint_eq_iff)
qed


lemma unat_add_offsetof:
  assumes "offset \<le> SIZE_MAX - (off::u64)"
  shows "unat (offset + off) = unat offset + unat off"
proof -
  have "off \<le> SIZE_MAX"
    by (simp add: SIZE_MAX_def word_le_nat_alt) (use unsigned_less [of off, where ?'a = nat] in simp)
  then have "unat (SIZE_MAX - off) = unat SIZE_MAX - unat off"
    by (simp add: unat_sub)
  with assms have "unat offset + unat off \<le> unat SIZE_MAX"
    using \<open>off \<le> SIZE_MAX\<close> by (simp add: word_le_nat_alt)
  then have "unat offset + unat off < 2 ^ LENGTH(64)"
    by (simp add: SIZE_MAX_def)
  then show ?thesis
    by (simp only: unat_add_lem)
qed

lemma mtk_header_update_size_ok:
  assumes "script f = []" and "offset \<le> SIZE_MAX - offsetof_MtkHeader_size K"
  shows "mtk_header_update_size K f offset v =
     (RET_OK,
      f\<lparr>content := write_at (unat offset + unat (offsetof_MtkHeader_size K)) (le32 v) (content f),
        fpos := unat offset + unat (offsetof_MtkHeader_size K) + 4,
        ops := ops f @ [OpSeek (uint (offset + offsetof_MtkHeader_size K)) SEEK_SET,
                        OpWrite (le32 v)]\<rparr>)"
proof -
  have g: "\<not> offset > SIZE_MAX - offsetof_MtkHeader_size K"
    using assms(2) by simp
  have n: "nat (uint (offset + offsetof_MtkHeader_size K))
           = unat offset + unat (offsetof_MtkHeader_size K)"
    using unat_add_offsetof [OF assms(2)] by simp
  show ?thesis
    unfolding mtk_header_update_size_def
    using assms(1) g n
    by (simp add: file_seek_set_ok file_write_fully_ok le32_def)
qed

lemma length_write_at: "length (write_at p bs d) = max (length d) (p + length bs)"
  by (simp add: write_at_def)

lemma length_patch_sizes: "length d \<le> length (patch_sizes K es h d)"
proof (induction es arbitrary: d)
  case Nil
  then show ?case by simp
next
  case (Cons e es)
  have w: "length d \<le> length (write_at p bs d)" for p bs
    by (simp add: length_write_at)
  have "length d \<le> length (patch_sizes K es h (write_at p bs d))" for p bs
    using w [of p bs] Cons.IH [of "write_at p bs d"] by linarith
  then show ?case
    using Cons.IH by simp
qed

lemma mtk_update_header_sizes_ok:
  "script f = [] \<Longrightarrow>
   \<forall>e \<in> set es. sw_type e = ENTRY_TYPE_MTK_KERNEL_HEADER \<or> sw_type e = ENTRY_TYPE_MTK_RAMDISK_HEADER
       \<longrightarrow> sw_offset e \<le> SIZE_MAX - offsetof_MtkHeader_size K \<Longrightarrow>
   \<exists>f'. mtk_update_header_sizes K es h f = (RET_OK, f')
      \<and> content f' = patch_sizes K es h (content f) \<and> script f' = []
      \<and> (\<exists>new. ops f' = ops f @ new)"
proof (induction es arbitrary: f)
  case Nil
  then show ?case by simp
next
  case (Cons e es)
  have rest: "\<forall>e \<in> set es. sw_type e = ENTRY_TYPE_MTK_KERNEL_HEADER \<or> sw_type e = ENTRY_TYPE_MTK_RAMDISK_HEADER
       \<longrightarrow> sw_offset e \<le> SIZE_MAX - offsetof_MtkHeader_size K"
    using Cons.prems(2) by simp
  have step: "\<exists>f'. mtk_update_header_sizes K es h g = (RET_OK, f')
      \<and> content f' = patch_sizes K es h (content g) \<and> script f' = []
      \<and> (\<exists>new. ops f' = ops f @ new)"
    if "script g = []" "\<exists>new. ops g = ops f @ new" for g
  proof -
    from Cons.IH [OF that(1) rest] obtain f' new where
      "mtk_update_header_sizes K es h g = (RET_OK, f')"
      "content f' = patch_sizes K es h (content g)" "script f' = []" "ops f' = ops g @ new"
      by auto
    with that(2) show ?thesis by auto
  qed
  show ?case
  proof (cases "sw_type e = ENTRY_TYPE_MTK_KERNEL_HEADER \<or> sw_type e = ENTRY_TYPE_MTK_RAMDISK_HEADER")
    case False
    with step [of f] Cons.prems(1) show ?thesis
      by (cases "sw_type e") simp_all
  next
    case True
    with Cons.prems(2) have off: "sw_offset e \<le> SIZE_MAX - offsetof_MtkHeader_size K"
      by auto
    note u = mtk_header_update_size_ok [OF Cons.prems(1) off]
    from True show ?thesis
    proof
      assume t: "sw_type e = ENTRY_TYPE_MTK_KERNEL_HEADER"
      show ?thesis
        using step [of "snd (mtk_header_update_size K f (sw_offset e) (kernel_size h - 512))"]
          Cons.prems(1) t u [of "kernel_size h - 512"]
        by (simp add: ucast_sub_sizeof)
    next
      assume t: "sw_type e = ENTRY_TYPE_MTK_RAMDISK_HEADER"
      show ?thesis
        using step [of "snd (mtk_header_update_size K f (sw_offset e) (ramdisk_size h - 512))"]
          Cons.prems(1) t u [of "ramdisk_size h - 512"]
        by (simp add: ucast_sub_sizeof)
    qed
  qed
qed

lemma mtk_compute_sha1_ok:
  assumes "map sw_type (sw_entries sg) = mtk_layout"
      and "script f = []"
      and "\<forall>e \<in> set (sw_entries sg). unat (sw_offset e) + unat (sw_size e) \<le> length (content f)"
  shows "\<exists>f'. mtk_compute_sha1 (sha1_stream H) sg f digest =
            (RET_OK, H (digest_input (sw_entries sg) (content f)), f')
        \<and> content f' = content f \<and> script f' = []
        \<and> (\<exists>new. ops f' = ops f @ new \<and> list_all digest_pass_op new)"
proof -
  from mtk_sha1_entries_ok [OF assms(2,3), of H "[]" 0 0]
  obtain f' where
    "mtk_sha1_entries (sha1_stream H) (sw_entries sg) [] 0 0 f =
       (RET_OK, fed_bytes (content f) 0 0 (sw_entries sg), f')"
    "content f' = content f" "script f' = []"
    "\<exists>new. ops f' = ops f @ new \<and> list_all digest_pass_op new"
    by auto
  then show ?thesis
    by (simp add: mtk_compute_sha1_def sha1_stream_def fed_bytes_mtk_layout [OF assms(1)])
qed

lemma mtk_finish_image_ok:
  assumes s: "script f = []"
      and lay: "map sw_type (sw_entries (mtk_seg ctx)) = mtk_layout"
      and off: "\<forall>e \<in> set (sw_entries (mtk_seg ctx)).
                  sw_type e = ENTRY_TYPE_MTK_KERNEL_HEADER \<or> sw_type e = ENTRY_TYPE_MTK_RAMDISK_HEADER
                  \<longrightarrow> sw_offset e \<le> SIZE_MAX - offsetof_MtkHeader_size K"
      and inb: "\<forall>e \<in> set (sw_entries (mtk_seg ctx)).
                  unat (sw_offset e) + unat (sw_size e) \<le> unat (file_size ctx)"
  shows "\<exists>f'. mtk_finish_image K (sha1_stream H) ctx f =
            (RET_OK, ctx\<lparr>mtk_hdr := finished_header K H ctx (unat (file_size ctx)) (content f)\<rparr>, f')
        \<and> content f' =
            write_at 0 (encode_AndroidHeader K (finished_header K H ctx (unat (file_size ctx)) (content f)))
              (patched_content K ctx (unat (file_size ctx)) (content f))
        \<and> (\<exists>mid. ops f' = ops f @ [OpTruncate (unat (file_size ctx))] @ mid
              @ [OpSeek 0 SEEK_SET,
                 OpWrite (encode_AndroidHeader K
                   (finished_header K H ctx (unat (file_size ctx)) (content f)))])"
proof -
  let ?n = "unat (file_size ctx)"
  let ?tbl = "sw_entries (mtk_seg ctx)"
  let ?f1 = "f\<lparr>content := truncated ?n (content f), ops := ops f @ [OpTruncate ?n]\<rparr>"
  have tr: "file_truncate f ?n = (True, ?f1)"
    using s by (rule file_truncate_ok)
  have s1: "script ?f1 = []" using s by simp
  from mtk_update_header_sizes_ok [OF s1 off, of "mtk_hdr ctx"]
  obtain f2 new2 where
    up: "mtk_update_header_sizes K ?tbl (mtk_hdr ctx) ?f1 = (RET_OK, f2)"
    and c2: "content f2 = patched_content K ctx ?n (content f)"
    and s2: "script f2 = []"
    and o2: "ops f2 = ops f @ [OpTruncate ?n] @ new2"
    by (auto simp add: patched_content_def)
  have "length (truncated ?n (content f)) = ?n"
    by (simp add: truncated_def)
  then have "?n \<le> length (content f2)"
    using c2 length_patch_sizes [of "truncated ?n (content f)" K ?tbl "mtk_hdr ctx"]
    by (simp add: patched_content_def)
  with inb have inb2: "\<forall>e \<in> set ?tbl. unat (sw_offset e) + unat (sw_size e) \<le> length (content f2)"
    by auto
  from mtk_compute_sha1_ok [OF lay s2 inb2, of H "take SHA_DIGEST_LENGTH (id_field (mtk_hdr ctx))"]
  obtain f3 new3 where
    sh: "mtk_compute_sha1 (sha1_stream H) (mtk_seg ctx) f2 (take SHA_DIGEST_LENGTH (id_field (mtk_hdr ctx)))
          = (RET_OK, H (digest_input ?tbl (content f2)), f3)"
    and c3: "content f3 = content f2" and s3: "script f3 = []"
    and o3: "ops f3 = ops f2 @ new3"
    by auto
  let ?h = "finished_header K H ctx ?n (content f)"
  let ?f4 = "f3\<lparr>fpos := 0, ops := ops f3 @ [OpSeek 0 SEEK_SET]\<rparr>"
  have sk: "file_seek f3 0 SEEK_SET = (True, 0, ?f4)"
    using file_seek_set_ok [OF s3, of 0] by simp
  have s4: "script ?f4 = []" using s3 by simp
  note wr = file_write_fully_ok [OF s4, of "encode_AndroidHeader K ?h"]
  have hd: "(mtk_hdr ctx)\<lparr>id_field := H (digest_input ?tbl (content f2))
              @ drop SHA_DIGEST_LENGTH (id_field (mtk_hdr ctx))\<rparr> = ?h"
    by (simp add: finished_header_def c2)
  show ?thesis
    unfolding mtk_finish_image_def
    using tr up sh sk wr hd c2 c3 o2 o3
    by (simp add: Let_def)
qed

subsection \<open>The digest pass\<close>

lemma example_small_digest_input:
  "digest_input (sw_entries example_small_seg) (content example_small_file) =
     [4, 5] @ [6, 7, 8] @ [5, 0, 0, 0] @ [12, 13] @ [14] @ [3, 0, 0, 0] @ [0, 0, 0, 0]"
  by (simp add: digest_input_def example_small_seg_def example_small_file_def payload_def
      digest_size_term_def segment_size_def le32_def)

text \<open>
  Claim C1. For a segment table in the layout of the MTK writer (MTK kernel header, kernel,
  MTK ramdisk header, ramdisk, second bootloader, device tree), when no file operation
  fails and every segment lies within the file, \<open>_mtk_compute_sha1\<close> returns \<open>RET_OK\<close> and
  the digest of the sequence that the specification describes (\<open>digest_input\<close>): for each
  segment in table order its payload bytes, then the little-endian 32-bit size term of its
  type (none for the two MTK headers, the size plus the size of the MTK kernel header for
  the kernel, the size plus the size of the MTK ramdisk header for the ramdisk, the size for
  the second bootloader, and for the device tree none if its size is 0, else its size).
  The pass leaves the bytes of the file as they are and performs only seeks to absolute
  offsets and reads of at most 10240 bytes.
\<close>

theorem mtk_compute_sha1_digest:
  assumes "map sw_type (sw_entries sg) = mtk_layout"
      and "script f = []"
      and "\<forall>e \<in> set (sw_entries sg). unat (sw_offset e) + unat (sw_size e) \<le> length (content f)"
  shows "\<exists>f'. mtk_compute_sha1 (sha1_stream H) sg f digest =
            (RET_OK, H (digest_input (sw_entries sg) (content f)), f')
        \<and> content f' = content f
        \<and> (\<exists>new. ops f' = ops f @ new \<and> list_all digest_pass_op new)"
  using mtk_compute_sha1_ok [OF assms, of H digest] by blast

theorem mtk_compute_sha1_digest_witness:
  "\<exists>f'. mtk_compute_sha1 (sha1_stream example_sha) example_small_seg example_small_file [] =
           (RET_OK,
            example_sha ([4, 5] @ [6, 7, 8] @ [5, 0, 0, 0] @ [12, 13] @ [14] @ [3, 0, 0, 0]
                          @ [0, 0, 0, 0]), f')
       \<and> content f' = content example_small_file"
proof -
  have a: "map sw_type (sw_entries example_small_seg) = mtk_layout"
    by (simp add: example_small_seg_def mtk_layout_def)
  have b: "script example_small_file = []"
    by (simp add: example_small_file_def)
  have c: "\<forall>e \<in> set (sw_entries example_small_seg).
             unat (sw_offset e) + unat (sw_size e) \<le> length (content example_small_file)"
    by (simp add: example_small_seg_def example_small_file_def)
  from mtk_compute_sha1_digest [OF a b c, of example_sha "[]"] show ?thesis
    unfolding example_small_digest_input by blast
qed

subsection \<open>Closing the MTK writer\<close>

lemma mtk_finish_image_file_size:
  "file_size (fst (snd (mtk_finish_image K P ctx f))) = file_size ctx
   \<and> have_file_size (fst (snd (mtk_finish_image K P ctx f))) = have_file_size ctx"
  by (simp add: mtk_finish_image_def Let_def split: prod.splits)

text \<open>
  Claim C9. If the segment writer has a current entry (\<open>seg.entry()\<close> is not null) when
  \<open>mtk_writer_close\<close> is called, and the query of the position does not fail (it is made
  only if no position was captured before), the call returns \<open>RET_OK\<close>; the header in the
  context is unchanged, and the only file operation is that query, a seek by 0 from the
  current position: no truncation, no write and no read happens, the bytes and the position
  of the file are as before. Whatever the call does, once \<open>have_file_size\<close> is set the
  captured \<open>file_size\<close> is never written again.
\<close>

theorem mtk_writer_close_entry_pending:
  assumes "sw_entry (mtk_seg ctx) = Some e"
      and "have_file_size ctx \<or> (\<forall>b. next_outcome f \<noteq> Fails b)"
  shows "mtk_writer_close K P ctx f =
           (RET_OK,
            (if have_file_size ctx then ctx
             else ctx\<lparr>file_size := of_nat (fpos f), have_file_size := True\<rparr>),
            (if have_file_size ctx then f
             else f\<lparr>script := tl (script f), ops := ops f @ [OpSeek 0 SEEK_CUR]\<rparr>))
         \<and> (have_file_size ctx_b \<longrightarrow>
              file_size (fst (snd (mtk_writer_close K P ctx_b f_b))) = file_size ctx_b
              \<and> have_file_size (fst (snd (mtk_writer_close K P ctx_b f_b))))"
proof -
  have 1: "mtk_writer_close K P ctx f =
           (RET_OK,
            (if have_file_size ctx then ctx
             else ctx\<lparr>file_size := of_nat (fpos f), have_file_size := True\<rparr>),
            (if have_file_size ctx then f
             else f\<lparr>script := tl (script f), ops := ops f @ [OpSeek 0 SEEK_CUR]\<rparr>))"
    using assms
    by (cases "next_outcome f")
       (auto simp add: mtk_writer_close_def file_seek_def logged_def Let_def)
  have 2: "file_size (fst (snd (mtk_writer_close K P ctx_b f_b))) = file_size ctx_b
              \<and> have_file_size (fst (snd (mtk_writer_close K P ctx_b f_b)))"
    if "have_file_size ctx_b"
    using that mtk_finish_image_file_size [of K P ctx_b f_b]
    by (simp add: mtk_writer_close_def split: option.splits)
  from 1 2 show ?thesis by blast
qed

theorem mtk_writer_close_entry_pending_witness:
  "mtk_writer_close example_params (sha1_stream example_sha) (example_kernel_ctx 1024) example_file =
     (RET_OK, (example_kernel_ctx 1024)\<lparr>file_size := 100, have_file_size := True\<rparr>,
      example_file\<lparr>ops := [OpSeek 0 SEEK_CUR]\<rparr>)
   \<and> mtk_writer_close example_params (sha1_stream example_sha)
        ((example_kernel_ctx 1024)\<lparr>file_size := 100, have_file_size := True\<rparr>)
        (example_file\<lparr>ops := [OpSeek 0 SEEK_CUR]\<rparr>) =
     (RET_OK, (example_kernel_ctx 1024)\<lparr>file_size := 100, have_file_size := True\<rparr>,
      example_file\<lparr>ops := [OpSeek 0 SEEK_CUR]\<rparr>)"
  using mtk_writer_close_entry_pending
          [where ctx = "example_kernel_ctx 1024" and f = example_file
             and e = "\<lparr>sw_type = ENTRY_TYPE_KERNEL, sw_offset = 2560, sw_size = 1024,
                        sw_align = 2048\<rparr>"
             and K = example_params and P = "sha1_stream example_sha"
             and ctx_b = "(example_kernel_ctx 1024)\<lparr>file_size := 100, have_file_size := True\<rparr>"
             and f_b = "example_file\<lparr>ops := [OpSeek 0 SEEK_CUR]\<rparr>"]
        mtk_writer_close_entry_pending
          [where ctx = "(example_kernel_ctx 1024)\<lparr>file_size := 100, have_file_size := True\<rparr>"
             and f = "example_file\<lparr>ops := [OpSeek 0 SEEK_CUR]\<rparr>"
             and e = "\<lparr>sw_type = ENTRY_TYPE_KERNEL, sw_offset = 2560, sw_size = 1024,
                        sw_align = 2048\<rparr>"
             and K = example_params and P = "sha1_stream example_sha"
             and ctx_b = "(example_kernel_ctx 1024)\<lparr>file_size := 100, have_file_size := True\<rparr>"
             and f_b = "example_file\<lparr>ops := [OpSeek 0 SEEK_CUR]\<rparr>"]
  by (simp add: example_sw_entry next_outcome_def)
     (simp add: example_kernel_ctx_def example_file_def sw_entry_def)

lemma mtk_writer_close_finish_image:
  assumes "sw_entry (mtk_seg ctx) = None"
      and "script f = []"
      and "n = (if have_file_size ctx then unat (file_size ctx) else fpos f)"
  shows "mtk_writer_close K P ctx f =
           mtk_finish_image K P (ctx\<lparr>file_size := of_nat n, have_file_size := True\<rparr>)
             (if have_file_size ctx then f else f\<lparr>ops := ops f @ [OpSeek 0 SEEK_CUR]\<rparr>)"
proof (cases "have_file_size ctx")
  case True
  then have "ctx\<lparr>file_size := of_nat n, have_file_size := True\<rparr> = ctx"
    using assms(3) by (cases ctx) simp
  with True assms(1) show ?thesis
    by (simp add: mtk_writer_close_def)
next
  case False
  have eq: "f\<lparr>script := [], ops := x\<rparr> = f\<lparr>ops := x\<rparr>" for x
    using assms(2) by (cases f) simp
  from False assms show ?thesis
    by (simp add: mtk_writer_close_def file_seek_def logged_def next_outcome_def eq)
qed

text \<open>
  Claim C2, as amended. When \<open>mtk_writer_close\<close> runs with the segment cursor exhausted
  (\<open>seg.entry()\<close> is null), no file operation fails and the segments of the table (in the
  layout of the MTK writer) lie within the captured length, the call returns \<open>RET_OK\<close> and
  has done the following, in this order. It captures the current position \<open>n\<close> of the file
  as the file size, once (a size captured by an earlier call is kept), and truncates the
  file to \<open>n\<close> bytes. For each MTK kernel or ramdisk header segment it writes at the offset
  of the segment plus \<open>offsetof(MtkHeader, size)\<close> the four little-endian bytes of
  \<open>kernel_size - sizeof(MtkHeader)\<close>, respectively \<open>ramdisk_size - sizeof(MtkHeader)\<close>
  (\<open>patched_content\<close>). It computes the digest over these bytes and stores it in the first
  20 bytes of the \<open>id\<close> field, whose remaining bytes are unchanged (zero, when the header
  is the one \<open>mtk_writer_write_header\<close> has cleared). Finally it seeks to offset 0 and
  writes the encoded header there.
\<close>

theorem mtk_writer_close_finalizes:
  assumes "sw_entry (mtk_seg ctx) = None"
      and "script f = []"
      and "n = (if have_file_size ctx then unat (file_size ctx) else fpos f)"
      and "n < 2 ^ 64"
      and "map sw_type (sw_entries (mtk_seg ctx)) = mtk_layout"
      and "\<forall>e \<in> set (sw_entries (mtk_seg ctx)).
             sw_type e = ENTRY_TYPE_MTK_KERNEL_HEADER \<or> sw_type e = ENTRY_TYPE_MTK_RAMDISK_HEADER
             \<longrightarrow> sw_offset e \<le> SIZE_MAX - offsetof_MtkHeader_size K"
      and "\<forall>e \<in> set (sw_entries (mtk_seg ctx)). unat (sw_offset e) + unat (sw_size e) \<le> n"
      and "\<forall>x. length (H x) = SHA_DIGEST_LENGTH"
  shows "\<exists>f'. mtk_writer_close K (sha1_stream H) ctx f =
            (RET_OK,
             ctx\<lparr>file_size := of_nat n, have_file_size := True,
                 mtk_hdr := finished_header K H ctx n (content f)\<rparr>, f')
        \<and> content f' =
            write_at 0 (encode_AndroidHeader K (finished_header K H ctx n (content f)))
              (patched_content K ctx n (content f))
        \<and> take SHA_DIGEST_LENGTH (id_field (finished_header K H ctx n (content f)))
            = H (digest_input (sw_entries (mtk_seg ctx)) (patched_content K ctx n (content f)))
        \<and> drop SHA_DIGEST_LENGTH (id_field (finished_header K H ctx n (content f)))
            = drop SHA_DIGEST_LENGTH (id_field (mtk_hdr ctx))
        \<and> (\<exists>mid. ops f' =
              ops f @ (if have_file_size ctx then [] else [OpSeek 0 SEEK_CUR])
                @ [OpTruncate n] @ mid
                @ [OpSeek 0 SEEK_SET,
                   OpWrite (encode_AndroidHeader K (finished_header K H ctx n (content f)))])"
proof -
  let ?ctx1 = "ctx\<lparr>file_size := of_nat n, have_file_size := True\<rparr>"
  let ?f1 = "if have_file_size ctx then f else f\<lparr>ops := ops f @ [OpSeek 0 SEEK_CUR]\<rparr>"
  have un: "unat (of_nat n :: u64) = n"
    using assms(4) by (simp add: unat_of_nat)
  have fh: "finished_header K H ?ctx1 n d = finished_header K H ctx n d" for d
    by (simp add: finished_header_def patched_content_def)
  have pc: "patched_content K ?ctx1 n d = patched_content K ctx n d" for d
    by (simp add: patched_content_def)
  have cl: "mtk_writer_close K (sha1_stream H) ctx f = mtk_finish_image K (sha1_stream H) ?ctx1 ?f1"
    using assms(1,2,3) by (rule mtk_writer_close_finish_image)
  have s1: "script ?f1 = []" using assms(2) by simp
  have "\<exists>f'. mtk_finish_image K (sha1_stream H) ?ctx1 ?f1 =
            (RET_OK, ?ctx1\<lparr>mtk_hdr := finished_header K H ?ctx1 (unat (file_size ?ctx1)) (content ?f1)\<rparr>, f')
        \<and> content f' =
            write_at 0 (encode_AndroidHeader K (finished_header K H ?ctx1 (unat (file_size ?ctx1)) (content ?f1)))
              (patched_content K ?ctx1 (unat (file_size ?ctx1)) (content ?f1))
        \<and> (\<exists>mid. ops f' = ops ?f1 @ [OpTruncate (unat (file_size ?ctx1))] @ mid
              @ [OpSeek 0 SEEK_SET,
                 OpWrite (encode_AndroidHeader K
                   (finished_header K H ?ctx1 (unat (file_size ?ctx1)) (content ?f1)))])"
    using assms(5,6,7) un by (intro mtk_finish_image_ok [OF s1]) simp_all
  then obtain f' mid where
    r: "mtk_finish_image K (sha1_stream H) ?ctx1 ?f1 =
          (RET_OK, ?ctx1\<lparr>mtk_hdr := finished_header K H ctx n (content f)\<rparr>, f')"
    and c: "content f' = write_at 0 (encode_AndroidHeader K (finished_header K H ctx n (content f)))
              (patched_content K ctx n (content f))"
    and o: "ops f' = ops ?f1 @ [OpTruncate n] @ mid
              @ [OpSeek 0 SEEK_SET,
                 OpWrite (encode_AndroidHeader K (finished_header K H ctx n (content f)))]"
    by (auto simp add: un fh pc split: if_splits)
  have idt: "take SHA_DIGEST_LENGTH (id_field (finished_header K H ctx n (content f)))
            = H (digest_input (sw_entries (mtk_seg ctx)) (patched_content K ctx n (content f)))"
    using assms(8) by (simp add: finished_header_def)
  have idd: "drop SHA_DIGEST_LENGTH (id_field (finished_header K H ctx n (content f)))
            = drop SHA_DIGEST_LENGTH (id_field (mtk_hdr ctx))"
    using assms(8) by (simp add: finished_header_def)
  from cl r c o idt idd show ?thesis
    by (intro exI [of _ f']) auto
qed


lemma example_mtk_layout: "map sw_type (sw_entries (mtk_seg example_mtk_ctx)) = mtk_layout"
  by (simp add: example_mtk_ctx_def mtk_layout_def)

lemma length_example_mtk_image: "length example_mtk_image = 6656"
  by (simp add: example_mtk_image_def)

lemma length_example_encode:
  "length (example_encode h) = 40 + length (magic h) + length (name h) + length (cmdline h) + length (id_field h)"
  by (simp add: example_encode_def le32_def)

lemma length_example_sha: "length (example_sha x) = 20"
  by (simp add: example_sha_def)

theorem mtk_writer_close_finalizes_witness:
  "\<exists>f'. mtk_writer_close example_params (sha1_stream example_sha) example_mtk_ctx example_mtk_file =
            (RET_OK,
             example_mtk_ctx\<lparr>file_size := 8192, have_file_size := True,
                 mtk_hdr := finished_header example_params example_sha example_mtk_ctx 8192
                              example_mtk_image\<rparr>, f')
        \<and> content f' =
            write_at 0 (example_encode (finished_header example_params example_sha example_mtk_ctx 8192
                          example_mtk_image))
              (patched_content example_params example_mtk_ctx 8192 example_mtk_image)"
  using mtk_writer_close_finalizes
    [where ctx = example_mtk_ctx and f = example_mtk_file and n = 8192
       and K = example_params and H = example_sha]
  by (simp add: example_mtk_layout length_example_sha SHA_DIGEST_LENGTH_def)
     (auto simp add: example_mtk_ctx_def example_mtk_file_def example_params_def sw_entry_def SIZE_MAX_def)

lemma example_mtk_ctx_simps:
  "sw_entry (mtk_seg example_mtk_ctx) = None"
  "have_file_size example_mtk_ctx = False"
  by (simp_all add: example_mtk_ctx_def sw_entry_def)

lemma example_mtk_file_stale_simps:
  "script example_mtk_file_stale = []"
  "fpos example_mtk_file_stale = 8192"
  "ops example_mtk_file_stale = []"
  "content example_mtk_file_stale = example_stale_image"
  by (simp_all add: example_mtk_file_stale_def)

lemma example_mtk_offsets:
  "\<forall>e \<in> set (sw_entries (mtk_seg example_mtk_ctx)).
     sw_type e = ENTRY_TYPE_MTK_KERNEL_HEADER \<or> sw_type e = ENTRY_TYPE_MTK_RAMDISK_HEADER
     \<longrightarrow> sw_offset e \<le> SIZE_MAX - offsetof_MtkHeader_size example_params"
  by (simp add: example_mtk_ctx_def example_params_def SIZE_MAX_def)

lemma example_mtk_inbounds:
  "\<forall>e \<in> set (sw_entries (mtk_seg example_mtk_ctx)). unat (sw_offset e) + unat (sw_size e) \<le> 8192"
  by (simp add: example_mtk_ctx_def)

lemma example_patched_length:
  "length (patched_content example_params (example_mtk_ctx\<lparr>file_size := 8192, have_file_size := True\<rparr>) 8192 d) = 8192"
  by (simp add: patched_content_def example_mtk_ctx_def example_params_def truncated_def
      length_write_at le32_def)

lemma example_encode_length:
  "length (encode_AndroidHeader example_params
      (finished_header example_params example_sha
         (example_mtk_ctx\<lparr>file_size := 8192, have_file_size := True\<rparr>) 8192 d)) = 608"
  by (simp add: example_params_def length_example_encode finished_header_def
        length_example_sha example_mtk_ctx_def zero_AndroidHeader_def BOOT_MAGIC_def
        SHA_DIGEST_LENGTH_def)

lemma length_example_stale_image: "length example_stale_image = 16384"
  by (simp add: example_stale_image_def length_example_mtk_image)

text \<open>
  Claim C2 as stated does not hold: what \<open>mtk_writer_close\<close> captures and truncates to is
  the current position of the file, not its current length. When the image of scenario S3
  has been written into a file that was 16384 bytes long, the position at the close is 8192:
  the call captures 8192 and truncates the file to 8192 bytes.
\<close>

theorem mtk_writer_close_length_counterexample:
  "fst (mtk_writer_close example_params (sha1_stream example_sha) example_mtk_ctx
          example_mtk_file_stale) = RET_OK
   \<and> length (content example_mtk_file_stale) = 16384
   \<and> file_size (fst (snd (mtk_writer_close example_params (sha1_stream example_sha)
          example_mtk_ctx example_mtk_file_stale))) = 8192
   \<and> length (content (snd (snd (mtk_writer_close example_params (sha1_stream example_sha)
          example_mtk_ctx example_mtk_file_stale)))) = 8192
   \<and> OpTruncate 8192 \<in> set (ops (snd (snd (mtk_writer_close example_params
          (sha1_stream example_sha) example_mtk_ctx example_mtk_file_stale))))"
proof -
  let ?ctx1 = "example_mtk_ctx\<lparr>file_size := 8192, have_file_size := True\<rparr>"
  let ?f1 = "example_mtk_file_stale\<lparr>ops := [OpSeek 0 SEEK_CUR]\<rparr>"
  have cl: "mtk_writer_close example_params (sha1_stream example_sha) example_mtk_ctx
              example_mtk_file_stale
            = mtk_finish_image example_params (sha1_stream example_sha) ?ctx1 ?f1"
    using mtk_writer_close_finish_image
      [where ctx = example_mtk_ctx and f = example_mtk_file_stale and n = 8192
         and K = example_params and P = "sha1_stream example_sha"]
    by (simp add: example_mtk_ctx_simps example_mtk_file_stale_simps)
  have "\<exists>f'. mtk_finish_image example_params (sha1_stream example_sha) ?ctx1 ?f1 =
            (RET_OK, ?ctx1\<lparr>mtk_hdr := finished_header example_params example_sha ?ctx1
                 (unat (file_size ?ctx1)) (content ?f1)\<rparr>, f')
        \<and> content f' =
            write_at 0 (encode_AndroidHeader example_params (finished_header example_params example_sha ?ctx1
                 (unat (file_size ?ctx1)) (content ?f1)))
              (patched_content example_params ?ctx1 (unat (file_size ?ctx1)) (content ?f1))
        \<and> (\<exists>mid. ops f' = ops ?f1 @ [OpTruncate (unat (file_size ?ctx1))] @ mid
              @ [OpSeek 0 SEEK_SET,
                 OpWrite (encode_AndroidHeader example_params
                   (finished_header example_params example_sha ?ctx1 (unat (file_size ?ctx1)) (content ?f1)))])"
    by (rule mtk_finish_image_ok)
       (simp_all add: example_mtk_file_stale_simps example_mtk_layout example_mtk_offsets
          example_mtk_inbounds)
  then obtain f' mid where
    r: "mtk_finish_image example_params (sha1_stream example_sha) ?ctx1 ?f1 =
            (RET_OK, ?ctx1\<lparr>mtk_hdr := finished_header example_params example_sha ?ctx1
                 8192 (content ?f1)\<rparr>, f')"
    and c: "content f' =
            write_at 0 (encode_AndroidHeader example_params (finished_header example_params example_sha ?ctx1
                 8192 (content ?f1)))
              (patched_content example_params ?ctx1 8192 (content ?f1))"
    and o: "ops f' = ops ?f1 @ [OpTruncate 8192] @ mid
              @ [OpSeek 0 SEEK_SET,
                 OpWrite (encode_AndroidHeader example_params
                   (finished_header example_params example_sha ?ctx1 8192 (content ?f1)))]"
    by auto
  have len: "length (content f') = 8192"
    by (simp only: c length_write_at example_patched_length example_encode_length)
  have "length (content example_mtk_file_stale) = 16384"
    by (simp add: example_mtk_file_stale_simps length_example_stale_image)
  with cl r len o show ?thesis
    by simp
qed

subsection \<open>The Android reader: auxiliary facts\<close>

lemma magic_pos_tail_offset: "magic_pos h = tail_offset h"
  by (simp add: magic_pos_def tail_offset_def align_up_def Let_def)

lemma mb_memmem_None:
  "mb_memmem h n = None \<longleftrightarrow> n \<noteq> [] \<and> (\<forall>i. take (length n) (drop i h) \<noteq> n)"
proof (induction h)
  case Nil
  then show ?case by auto
next
  case (Cons b bs)
  show ?case
  proof (cases "take (length n) (b # bs) = n")
    case True
    then have "take (length n) (drop 0 (b # bs)) = n" by simp
    with True show ?thesis by (metis mb_memmem.simps(2) option.distinct(1))
  next
    case False
    have "(\<forall>i. take (length n) (drop i (b # bs)) \<noteq> n) \<longleftrightarrow> (\<forall>i. take (length n) (drop i bs) \<noteq> n)"
    proof
      assume a: "\<forall>i. take (length n) (drop i (b # bs)) \<noteq> n"
      show "\<forall>i. take (length n) (drop i bs) \<noteq> n"
      proof
        fix i
        from a have "take (length n) (drop (Suc i) (b # bs)) \<noteq> n" by blast
        then show "take (length n) (drop i bs) \<noteq> n" by simp
      qed
    next
      assume a: "\<forall>i. take (length n) (drop i bs) \<noteq> n"
      show "\<forall>i. take (length n) (drop i (b # bs)) \<noteq> n"
      proof
        fix i
        show "take (length n) (drop i (b # bs)) \<noteq> n"
          using a False by (cases i) simp_all
      qed
    qed
    with False Cons.IH show ?thesis by simp
  qed
qed

lemma mb_memmem_Some:
  "mb_memmem h n = Some k \<Longrightarrow>
     take (length n) (drop k h) = n \<and> (\<forall>i < k. take (length n) (drop i h) \<noteq> n)"
proof (induction h arbitrary: k)
  case Nil
  then show ?case by (simp split: if_splits)
next
  case (Cons b bs)
  show ?case
  proof (cases "take (length n) (b # bs) = n")
    case True
    with Cons.prems show ?thesis by simp
  next
    case False
    with Cons.prems obtain k' where k: "mb_memmem bs n = Some k'" "k = Suc k'"
      by auto
    from Cons.IH [OF k(1)] have ih: "take (length n) (drop k' bs) = n"
      "\<forall>i < k'. take (length n) (drop i bs) \<noteq> n" by simp_all
    have "take (length n) (drop i (b # bs)) \<noteq> n" if "i < k" for i
      using that False ih(2) k(2) by (cases i) simp_all
    with ih(1) k(2) show ?thesis by simp
  qed
qed

lemma find_android_header_ok:
  assumes "script f = []"
  shows "find_android_header K f (MAX_HEADER_OFFSET K) h0 o0 =
     (let buf = take (MAX_HEADER_OFFSET K + sizeof_AndroidHeader K) (content f);
          f2 = f\<lparr>fpos := length buf,
                 ops := ops f @ [OpSeek 0 SEEK_SET,
                                 OpRead (MAX_HEADER_OFFSET K + sizeof_AndroidHeader K)]\<rparr>
      in case mb_memmem buf BOOT_MAGIC of
           None \<Rightarrow> (RET_WARN, h0, o0, f2)
         | Some offset \<Rightarrow>
             if length buf - offset < sizeof_AndroidHeader K then (RET_WARN, h0, o0, f2)
             else (RET_OK, decode_AndroidHeader K (take (sizeof_AndroidHeader K) (drop offset buf)),
                   of_nat offset, f2))"
proof -
  let ?f1 = "f\<lparr>fpos := 0, ops := ops f @ [OpSeek 0 SEEK_SET]\<rparr>"
  have sk: "file_seek f 0 SEEK_SET = (True, 0, ?f1)"
    using file_seek_set_ok [OF assms, of 0] by simp
  have s1: "script ?f1 = []" using assms by simp
  show ?thesis
    unfolding find_android_header_def
    by (simp add: sk file_read_fully_ok [OF s1] Let_def split: option.splits)
qed

lemma magic_test:
  "(length bs \<noteq> length m \<or> memcmp_differs bs m (length bs)) \<longleftrightarrow> bs \<noteq> m"
  by (auto simp add: memcmp_differs_def)

lemma find_samsung_seandroid_magic_ok:
  assumes "script f = []"
  shows "find_samsung_seandroid_magic K f h o0 =
     (let bs = take (length (SAMSUNG_SEANDROID_MAGIC K)) (drop (unat (magic_pos h)) (content f));
          f2 = f\<lparr>fpos := unat (magic_pos h) + length bs,
                 ops := ops f @ [OpSeek (uint (magic_pos h)) SEEK_SET,
                                 OpRead (length (SAMSUNG_SEANDROID_MAGIC K))]\<rparr>
      in if bs = SAMSUNG_SEANDROID_MAGIC K then (RET_OK, magic_pos h, f2)
         else (RET_WARN, o0, f2))"
proof -
  let ?f1 = "f\<lparr>fpos := unat (magic_pos h), ops := ops f @ [OpSeek (uint (magic_pos h)) SEEK_SET]\<rparr>"
  define bs where "bs = take (length (SAMSUNG_SEANDROID_MAGIC K)) (drop (unat (magic_pos h)) (content f))"
  have sk: "file_seek f (uint (magic_pos h)) SEEK_SET = (True, unat (magic_pos h), ?f1)"
    using file_seek_set_ok [OF assms, of "uint (magic_pos h)"] by simp
  have s1: "script ?f1 = []" using assms by simp
  have rd: "file_read_fully ?f1 (length (SAMSUNG_SEANDROID_MAGIC K)) =
              (True, bs, f\<lparr>fpos := unat (magic_pos h) + length bs,
                 ops := ops f @ [OpSeek (uint (magic_pos h)) SEEK_SET,
                                 OpRead (length (SAMSUNG_SEANDROID_MAGIC K))]\<rparr>)"
    by (simp add: file_read_fully_ok [OF s1] bs_def)
  show ?thesis
    unfolding find_samsung_seandroid_magic_def Let_def bs_def [symmetric]
    by (simp only: sk rd split_conv magic_test) simp
qed

lemma u32_of_le_le32: "u32_of_le (le32 w) = w"
proof (rule bit_word_eqI)
  fix n
  assume "n < LENGTH(32)"
  then have n: "n < 32" by simp
  consider "n < 8" | "8 \<le> n" "n < 16" | "16 \<le> n" "n < 24" | "24 \<le> n"
    by linarith
  then show "bit (u32_of_le (le32 w)) n \<longleftrightarrow> bit w n"
  proof cases
    case 1
    then show ?thesis by (auto simp add: u32_of_le_def le32_def bit_simps)
  next
    case 2
    then show ?thesis using n by (auto simp add: u32_of_le_def le32_def bit_simps)
  next
    case 3
    then show ?thesis using n by (auto simp add: u32_of_le_def le32_def bit_simps)
  next
    case 4
    then show ?thesis using n by (auto simp add: u32_of_le_def le32_def bit_simps)
  qed
qed

lemma example_decode_encode:
  assumes "length (magic h) = 8" "length (name h) = 16" "length (cmdline h) = 512"
    "length (id_field h) = 32"
  shows "example_decode (example_encode h) = h"
proof -
  have l: "length (le32 w) = 4" for w by (simp add: le32_def)
  have "example_decode (magic h @ le32 (kernel_size h) @ le32 (kernel_addr h) @ le32 (ramdisk_size h)
       @ le32 (ramdisk_addr h) @ le32 (second_size h) @ le32 (second_addr h)
       @ le32 (tags_addr h) @ le32 (page_size h) @ le32 (dt_size h) @ le32 (unused h)
       @ name h @ cmdline h @ id_field h) = h"
    unfolding example_decode_def
    using assms by (cases h) (simp add: l u32_of_le_le32)
  then show ?thesis by (simp add: example_encode_def)
qed

lemma android_set_header_ok:
  "android_set_header h header =
     (RET_OK, header\<lparr>supported_fields := SUPPORTED_FIELDS,
        board_name := Some (c_string (name h)),
        kernel_cmdline := Some (c_string (cmdline h)),
        header_page_size := Some (page_size h),
        kernel_address := Some (kernel_addr h),
        ramdisk_address := Some (ramdisk_addr h),
        secondboot_address := Some (second_addr h),
        kernel_tags_address := Some (tags_addr h)\<rparr>)"
  by (simp add: android_set_header_def header_set_def SUPPORTED_FIELDS_def Let_def)



lemma android_build_segments_ok:
  "android_build_segments K ctx psize =
     (RET_OK, ctx\<lparr>seg := (seg ctx)\<lparr>sr_entries := built_entries K ctx (ucast psize)\<rparr>\<rparr>)"
  by (simp add: android_build_segments_def built_entries_def sr_entries_add_def
      sr_entries_clear_def align_up_def Let_def)

lemma unat_align_up:
  assumes "psize \<noteq> 0" and "unat pos + unat psize < 2 ^ 64"
  shows "unat (align_up pos psize) =
           (if unat pos mod unat psize = 0 then unat pos
            else unat pos + (unat psize - unat pos mod unat psize))"
proof -
  have m: "0 < unat psize"
    using assms(1) by (simp add: unat_gt_0)
  have um: "unat (pos mod psize) = unat pos mod unat psize"
    by (simp add: unat_mod)
  show ?thesis
  proof (cases "unat pos mod unat psize = 0")
    case True
    then have "pos mod psize = 0"
      using um by (simp add: unat_eq_0)
    with True show ?thesis
      by (simp add: align_up_def align_page_size_def)
  next
    case False
    have nz: "pos mod psize \<noteq> 0"
    proof
      assume "pos mod psize = 0"
      then have "unat (pos mod psize) = unat (0::u64)"
        by (rule arg_cong)
      with um False show False by simp
    qed
    have lt: "unat pos mod unat psize < unat psize"
      using m by simp
    then have le: "pos mod psize \<le> psize"
      by (simp add: word_le_nat_alt um)
    have s: "unat (psize - pos mod psize) = unat psize - unat pos mod unat psize"
      using le by (simp add: unat_sub um)
    have "unat pos + unat (psize - pos mod psize) < 2 ^ LENGTH(64)"
      using assms(2) s by simp
    then have "unat (pos + (psize - pos mod psize)) = unat pos + unat (psize - pos mod psize)"
      by (simp only: unat_add_lem)
    with nz False s show ?thesis
      by (simp add: align_up_def align_page_size_def)
  qed
qed

lemma align_up_aligned:
  assumes "unat pos + unat psize < 2 ^ 64"
  shows "align_up pos psize mod psize = 0"
proof (cases "psize = 0")
  case True
  then show ?thesis
    by (simp add: align_up_def align_page_size_def)
next
  case False
  then have m: "0 < unat psize" by (simp add: unat_gt_0)
  have "unat (align_up pos psize) mod unat psize = 0"
  proof (cases "unat pos mod unat psize = 0")
    case True
    then show ?thesis by (simp add: unat_align_up [OF False assms])
  next
    case False': False
    have "(unat pos + (unat psize - unat pos mod unat psize)) mod unat psize
          = (unat pos mod unat psize + (unat psize - unat pos mod unat psize)) mod unat psize"
      by (simp add: mod_add_left_eq)
    also have "\<dots> = unat psize mod unat psize"
      using m by (simp add: less_imp_le_nat)
    finally show ?thesis
      using False' by (simp add: unat_align_up [OF False assms])
  qed
  then have "unat (align_up pos psize mod psize) = 0"
    by (simp add: unat_mod)
  then show ?thesis by (simp add: unat_eq_0)
qed

lemma align_up_idem:
  assumes "unat pos + unat psize < 2 ^ 64"
  shows "align_up (align_up pos psize) psize = align_up pos psize"
  using align_up_aligned [OF assms]
  by (simp add: align_up_def [of "align_up pos psize"] align_page_size_def)

lemma unat_align_up_le:
  assumes "unat pos + unat psize < 2 ^ 64"
  shows "unat (align_up pos psize) \<le> unat pos + unat psize"
proof (cases "psize = 0")
  case True
  then show ?thesis
    by (simp add: align_up_def align_page_size_def)
next
  case False
  then show ?thesis
    by (simp add: unat_align_up [OF False assms])
qed

text \<open>
  The aligned position is the one of the specification, \<open>ceil(pos / P) * P\<close>, for a page
  size \<open>P\<close> other than 0 and a position that does not overflow.
\<close>

lemma ceil_mult_nat:
  fixes a m :: nat
  assumes "0 < m"
  shows "((a + m - 1) div m) * m = (if a mod m = 0 then a else a + (m - a mod m))"
proof -
  define r where "r = a mod m"
  define k where "k = a div m"
  have a: "a = k * m + r" by (simp add: r_def k_def)
  have r: "r < m" using assms by (simp add: r_def)
  have goal: "((a + m - 1) div m) * m = (if r = 0 then a else a + (m - r))"
  proof (cases "r = 0")
    case True
    have "(a + m - 1) div m = k"
      unfolding a by (rule div_nat_eqI) (use assms True in \<open>simp_all add: algebra_simps\<close>)
    moreover have "a = k * m"
      using a True by simp
    ultimately show ?thesis
      using True by simp
  next
    case False
    have "(a + m - 1) div m = k + 1"
      unfolding a by (rule div_nat_eqI) (use False r in \<open>simp_all add: algebra_simps\<close>)
    moreover have "a + (m - r) = (k + 1) * m"
      using r a by (simp add: algebra_simps)
    ultimately show ?thesis
      using False by simp
  qed
  then show ?thesis
    by (simp only: r_def)
qed

lemma unat_align_up_ceil:
  assumes "psize \<noteq> 0" and "unat pos + unat psize < 2 ^ 64"
  shows "unat (align_up pos psize) = ((unat pos + unat psize - 1) div unat psize) * unat psize"
proof -
  have "0 < unat psize" using assms(1) by (simp add: unat_gt_0)
  from ceil_mult_nat [OF this, of "unat pos"] unat_align_up [OF assms] show ?thesis by simp
qed

lemma unat_ucast_u32_less: "unat (ucast (x::u32) :: u64) < 2 ^ 32"
proof -
  have "unat (ucast x :: u64) = unat x"
    by (simp add: unsigned_ucast_eq take_bit_eq_mod) (use unsigned_less [of x, where ?'a = nat] in simp)
  also have "\<dots> < 2 ^ 32"
    using unsigned_less [of x, where ?'a = nat] by simp
  finally show ?thesis .
qed

lemma unat_add_u32_le:
  assumes "unat p \<le> B"
  shows "unat (p + ucast (x::u32) :: u64) \<le> B + 2 ^ 32"
proof -
  have "unat (p + ucast x) \<le> unat p + unat (ucast x :: u64)"
    by (simp add: unat_word_ariths) 
  with assms unat_ucast_u32_less [of x] show ?thesis by linarith
qed

lemma unat_align_up_u32_le:
  assumes "unat p \<le> B" and "B + 2 ^ 32 < 2 ^ 64"
  shows "unat (align_up p (ucast (x::u32))) \<le> B + 2 ^ 32"
proof -
  have "unat p + unat (ucast x :: u64) < 2 ^ 64"
    using assms unat_ucast_u32_less [of x] by linarith
  from unat_align_up_le [OF this] assms(1) unat_ucast_u32_less [of x]
  show ?thesis by linarith
qed

lemma built_entries_second_absent:
  assumes "unat (header_offset ctx) + sizeof_AndroidHeader K < 2 ^ 32"
  shows "align_up (align_up (align_up (align_up (header_offset ctx + of_nat (sizeof_AndroidHeader K)) (ucast ps)
                      + ucast (kernel_size (hdr ctx))) (ucast ps)
             + ucast (ramdisk_size (hdr ctx))) (ucast (ps::u32))) (ucast ps)
         = align_up (align_up (align_up (header_offset ctx + of_nat (sizeof_AndroidHeader K)) (ucast ps)
                      + ucast (kernel_size (hdr ctx))) (ucast ps)
             + ucast (ramdisk_size (hdr ctx))) (ucast ps)"
proof -
  let ?p0 = "header_offset ctx + of_nat (sizeof_AndroidHeader K)"
  have "unat ?p0 \<le> unat (header_offset ctx) + unat (of_nat (sizeof_AndroidHeader K) :: u64)"
    by (simp add: unat_word_ariths)
  also have "\<dots> \<le> unat (header_offset ctx) + sizeof_AndroidHeader K"
    by (simp add: unat_of_nat)
  finally have b0: "unat ?p0 \<le> 2 ^ 32"
    using assms by simp
  note b1 = unat_align_up_u32_le [OF b0, of ps]
  have b1': "unat (align_up ?p0 (ucast ps)) \<le> 2 ^ 32 + 2 ^ 32"
    by (rule b1) simp
  note b2 = unat_add_u32_le [OF b1', of "kernel_size (hdr ctx)"]
  have b3: "unat (align_up (align_up ?p0 (ucast ps) + ucast (kernel_size (hdr ctx))) (ucast ps))
            \<le> 2 ^ 32 + 2 ^ 32 + 2 ^ 32 + 2 ^ 32"
    by (rule unat_align_up_u32_le [OF b2]) simp
  note b4 = unat_add_u32_le [OF b3, of "ramdisk_size (hdr ctx)"]
  have "unat (align_up (align_up ?p0 (ucast ps) + ucast (kernel_size (hdr ctx))) (ucast ps)
             + ucast (ramdisk_size (hdr ctx))) + unat (ucast ps :: u64) < 2 ^ 64"
    using b4 unat_ucast_u32_less [of ps] by simp
  then show ?thesis by (rule align_up_idem)
qed

subsection \<open>A bid that cannot be won\<close>

text \<open>
  Claim C6. When \<open>best_bid\<close> is at least the maximal score of the format
  (\<open>(BOOT_MAGIC_SIZE + SAMSUNG_SEANDROID_MAGIC_SIZE) * 8\<close> for the Android bid,
  \<open>(BOOT_MAGIC_SIZE + BUMP_MAGIC_SIZE) * 8\<close> for the Bump bid), the bid returns \<open>RET_WARN\<close>,
  the code of a bid that cannot be won, and leaves the context and the file as they are:
  the log of file operations is unchanged, so no seek and no read is performed.
\<close>

theorem bid_cannot_win:
  "(int (BOOT_MAGIC_SIZE + length (SAMSUNG_SEANDROID_MAGIC K)) * 8 \<le> best_bid \<longrightarrow>
      android_reader_bid K ctx f best_bid = (Code RET_WARN, ctx, f))
   \<and> (int (BOOT_MAGIC_SIZE + length (BUMP_MAGIC K)) * 8 \<le> best_bid \<longrightarrow>
      bump_reader_bid K ctx f best_bid = (Code RET_WARN, ctx, f))"
  by (simp add: android_reader_bid_def bump_reader_bid_def)

theorem bid_cannot_win_witness:
  "android_reader_bid example_params new_AndroidReaderCtx example_s2_file 192
     = (Code RET_WARN, new_AndroidReaderCtx, example_s2_file)
   \<and> bump_reader_bid example_params new_AndroidReaderCtx example_s4_file 200
     = (Code RET_WARN, new_AndroidReaderCtx, example_s4_file)"
  using bid_cannot_win [of example_params 192 new_AndroidReaderCtx example_s2_file]
    bid_cannot_win [of example_params 200 new_AndroidReaderCtx example_s4_file]
  by (simp add: example_params_def BOOT_MAGIC_SIZE_def)

lemma read_header_unfold:
  "android_reader_read_header K ctx f header =
     (if have_header_offset ctx then
        Some (RET_OK,
              ctx\<lparr>seg := (seg ctx)\<lparr>sr_entries :=
                     built_entries K ctx (ucast (page_size (hdr ctx)))\<rparr>\<rparr>,
              snd (android_set_header (hdr ctx) header), f)
      else
        (case find_android_header K f (MAX_HEADER_OFFSET K) (hdr ctx) (header_offset ctx) of
           (r, h, off, f1) \<Rightarrow>
             if r \<noteq> RET_OK then Some (r, ctx\<lparr>hdr := h, header_offset := off\<rparr>, header, f1)
             else
               (let ctx1 = ctx\<lparr>hdr := h, header_offset := off, have_header_offset := True\<rparr>
                in Some (RET_OK,
                     ctx1\<lparr>seg := (seg ctx1)\<lparr>sr_entries :=
                            built_entries K ctx1 (ucast (page_size h))\<rparr>\<rparr>,
                     snd (android_set_header h header), f1))))"
  by (simp add: android_reader_read_header_def android_set_header_ok
      android_build_segments_ok ret_negative_def Let_def split: prod.splits)

lemma built_entries_seg: "built_entries K (c\<lparr>seg := s\<rparr>) ps = built_entries K c ps"
  by (simp add: built_entries_def Let_def cong: if_cong)

lemma read_header_entries:
  assumes "android_reader_read_header K ctx f header = Some (RET_OK, ctx', header', f')"
  shows "sr_entries (seg ctx') = built_entries K ctx' (ucast (page_size (hdr ctx')))"
proof (cases "have_header_offset ctx")
  case True
  with assms have "ctx' = ctx\<lparr>seg := (seg ctx)\<lparr>sr_entries :=
                     built_entries K ctx (ucast (page_size (hdr ctx)))\<rparr>\<rparr>"
    by (simp add: read_header_unfold)
  then show ?thesis by (simp add: built_entries_seg)
next
  case False
  obtain r h off f1 where
    fh: "find_android_header K f (MAX_HEADER_OFFSET K) (hdr ctx) (header_offset ctx) = (r, h, off, f1)"
    by (metis prod_cases4)
  with False assms have "r = RET_OK"
    by (simp add: read_header_unfold split: if_splits)
  with False assms fh have "ctx' =
     (ctx\<lparr>hdr := h, header_offset := off, have_header_offset := True\<rparr>)
       \<lparr>seg := (seg ctx)\<lparr>sr_entries :=
          built_entries K (ctx\<lparr>hdr := h, header_offset := off, have_header_offset := True\<rparr>)
            (ucast (page_size h))\<rparr>\<rparr>"
    by (simp add: read_header_unfold Let_def)
  then show ?thesis by (simp add: built_entries_seg)
qed

subsection \<open>Facts about the example images\<close>

lemma example_android_hdr_simps:
  "magic example_android_hdr = BOOT_MAGIC"
  "kernel_size example_android_hdr = 100"
  "ramdisk_size example_android_hdr = 50"
  "second_size example_android_hdr = 0"
  "dt_size example_android_hdr = 0"
  "page_size example_android_hdr = 2048"
  "length (name example_android_hdr) = 16"
  "length (cmdline example_android_hdr) = 512"
  "length (id_field example_android_hdr) = 32"
  by (simp_all add: example_android_hdr_def zero_AndroidHeader_def)

lemma length_BOOT_MAGIC: "length BOOT_MAGIC = 8"
  by (simp add: BOOT_MAGIC_def)

lemma length_example_encode_hdr: "length (example_encode example_android_hdr) = 608"
  by (simp add: length_example_encode example_android_hdr_simps length_BOOT_MAGIC)

lemma length_example_android_image: "length example_android_image = 6144"
  by (simp add: example_android_image_def length_example_encode_hdr)

lemma take_example_android_image:
  "take 1120 (example_android_image @ rest) = example_encode example_android_hdr @ replicate 512 0"
  by (simp add: example_android_image_def length_example_encode_hdr)

lemma mb_memmem_prefix:
  assumes "take (length n) h = n"
  shows "mb_memmem h n = Some 0"
  using assms by (cases h) auto

lemma example_params_simps:
  "MAX_HEADER_OFFSET example_params = 512"
  "sizeof_AndroidHeader example_params = 608"
  "decode_AndroidHeader example_params = example_decode"
  "encode_AndroidHeader example_params = example_encode"
  "length (SAMSUNG_SEANDROID_MAGIC example_params) = 16"
  "length (BUMP_MAGIC example_params) = 16"
  "offsetof_MtkHeader_size example_params = 4"
  by (simp_all add: example_params_def)

lemma example_find_android_header:
  assumes "script f = []" and "content f = example_android_image @ rest"
  shows "find_android_header example_params f 512 h0 o0 =
           (RET_OK, example_android_hdr, 0,
            f\<lparr>fpos := 1120, ops := ops f @ [OpSeek 0 SEEK_SET, OpRead 1120]\<rparr>)"
proof -
  let ?buf = "example_encode example_android_hdr @ replicate 512 0"
  have m: "mb_memmem ?buf BOOT_MAGIC = Some 0"
    by (rule mb_memmem_prefix)
       (simp add: example_encode_def example_android_hdr_simps length_BOOT_MAGIC)
  have d: "example_decode (example_encode example_android_hdr) = example_android_hdr"
    by (rule example_decode_encode)
       (simp_all add: example_android_hdr_simps length_BOOT_MAGIC)
  have buf: "take (MAX_HEADER_OFFSET example_params + sizeof_AndroidHeader example_params)
               (content f) = ?buf"
    by (simp add: example_params_simps assms(2) take_example_android_image del: take_append)
  have "find_android_header example_params f (MAX_HEADER_OFFSET example_params) h0 o0 =
           (RET_OK, example_android_hdr, 0,
            f\<lparr>fpos := 1120, ops := ops f @ [OpSeek 0 SEEK_SET, OpRead 1120]\<rparr>)"
    unfolding find_android_header_ok [OF assms(1)] buf Let_def
    by (simp add: m example_params_simps length_example_encode_hdr d)
  then show ?thesis
    by (simp add: example_params_simps)
qed

lemma example_tail_offset: "tail_offset example_android_hdr = 6144"
  by (simp add: tail_offset_def example_android_hdr_simps align_up_def align_page_size_def)

lemma example_s1_simps:
  "script example_s1_file = []" "content example_s1_file = example_android_image @ []"
  "ops example_s1_file = []"
  by (simp_all add: example_s1_file_def)

lemma example_s2_simps:
  "script example_s2_file = []"
  "content example_s2_file = example_android_image @ SAMSUNG_SEANDROID_MAGIC example_params"
  "ops example_s2_file = []"
  by (simp_all add: example_s2_file_def)

lemma new_ctx_simps:
  "have_header_offset new_AndroidReaderCtx = False"
  by (simp add: new_AndroidReaderCtx_def)

subsection \<open>The Android bid\<close>

text \<open>
  Claim C5. For every file on which no operation fails, and a \<open>best_bid\<close> below the
  maximal score (the other case is claim C6), \<open>android_reader_bid\<close> returns 0 when the
  magic \<open>ANDROID!\<close> does not occur in the first \<open>MAX_HEADER_OFFSET + sizeof(AndroidHeader)\<close>
  bytes. When the header is found (the magic occurs first at \<open>off\<close> and the bytes read hold
  a whole header from there), the header and its offset are recorded, and the bid is
  \<open>(BOOT_MAGIC_SIZE + SAMSUNG_SEANDROID_MAGIC_SIZE) * 8\<close> if the Samsung magic stands at the
  tail offset of the specification (\<open>tail_offset\<close>: from 0, the page size added, then each of
  the kernel, ramdisk, second bootloader and device tree sizes added and the position
  aligned up to the page size), and \<open>BOOT_MAGIC_SIZE * 8\<close> if it does not.
\<close>

theorem android_reader_bid_score:
  assumes "script f = []"
      and "best_bid < int (BOOT_MAGIC_SIZE + length (SAMSUNG_SEANDROID_MAGIC K)) * 8"
      and "buf = take (MAX_HEADER_OFFSET K + sizeof_AndroidHeader K) (content f)"
  shows "((\<forall>i. take BOOT_MAGIC_SIZE (drop i buf) \<noteq> BOOT_MAGIC) \<longrightarrow>
            fst (android_reader_bid K ctx f best_bid) = Bid 0)
       \<and> (\<forall>off h. mb_memmem buf BOOT_MAGIC = Some off
                   \<and> sizeof_AndroidHeader K \<le> length buf - off
                   \<and> h = decode_AndroidHeader K (take (sizeof_AndroidHeader K) (drop off buf)) \<longrightarrow>
              fst (android_reader_bid K ctx f best_bid) =
                (if take (length (SAMSUNG_SEANDROID_MAGIC K)) (drop (unat (tail_offset h)) (content f))
                      = SAMSUNG_SEANDROID_MAGIC K
                 then Bid (int (BOOT_MAGIC_SIZE + length (SAMSUNG_SEANDROID_MAGIC K)) * 8)
                 else Bid (int BOOT_MAGIC_SIZE * 8))
              \<and> hdr (fst (snd (android_reader_bid K ctx f best_bid))) = h
              \<and> header_offset (fst (snd (android_reader_bid K ctx f best_bid))) = of_nat off
              \<and> have_header_offset (fst (snd (android_reader_bid K ctx f best_bid))))"
proof -
  let ?f2 = "f\<lparr>fpos := length buf,
                 ops := ops f @ [OpSeek 0 SEEK_SET,
                                 OpRead (MAX_HEADER_OFFSET K + sizeof_AndroidHeader K)]\<rparr>"
  note fh = find_android_header_ok [OF assms(1), of K "hdr ctx" "header_offset ctx", folded assms(3)]
  have nb: "\<not> best_bid \<ge> int (BOOT_MAGIC_SIZE + length (SAMSUNG_SEANDROID_MAGIC K)) * 8"
    using assms(2) by simp
  have 1: "fst (android_reader_bid K ctx f best_bid) = Bid 0"
    if "\<forall>i. take BOOT_MAGIC_SIZE (drop i buf) \<noteq> BOOT_MAGIC"
  proof -
    have "length BOOT_MAGIC = BOOT_MAGIC_SIZE"
      by (simp add: BOOT_MAGIC_def BOOT_MAGIC_SIZE_def)
    with that have "mb_memmem buf BOOT_MAGIC = None"
      by (simp add: mb_memmem_None) (simp add: BOOT_MAGIC_def)
    then show ?thesis
      using nb by (simp add: android_reader_bid_def fh Let_def)
  qed
  have 2: "fst (android_reader_bid K ctx f best_bid) =
                (if take (length (SAMSUNG_SEANDROID_MAGIC K)) (drop (unat (tail_offset h)) (content f))
                      = SAMSUNG_SEANDROID_MAGIC K
                 then Bid (int (BOOT_MAGIC_SIZE + length (SAMSUNG_SEANDROID_MAGIC K)) * 8)
                 else Bid (int BOOT_MAGIC_SIZE * 8))
              \<and> hdr (fst (snd (android_reader_bid K ctx f best_bid))) = h
              \<and> header_offset (fst (snd (android_reader_bid K ctx f best_bid))) = of_nat off
              \<and> have_header_offset (fst (snd (android_reader_bid K ctx f best_bid)))"
    if "mb_memmem buf BOOT_MAGIC = Some off" "sizeof_AndroidHeader K \<le> length buf - off"
       "h = decode_AndroidHeader K (take (sizeof_AndroidHeader K) (drop off buf))" for off h
  proof -
    have s2: "script ?f2 = []" using assms(1) by simp
    have f: "find_android_header K f (MAX_HEADER_OFFSET K) (hdr ctx) (header_offset ctx)
             = (RET_OK, h, of_nat off, ?f2)"
      using that by (simp add: fh Let_def)
    show ?thesis
      using nb
      by (simp add: android_reader_bid_def f Let_def find_samsung_seandroid_magic_ok [OF s2]
          magic_pos_tail_offset)
  qed
  from 1 2 show ?thesis by blast
qed

theorem android_reader_bid_score_witness:
  "fst (android_reader_bid example_params new_AndroidReaderCtx example_s1_file 0) = Bid 64
   \<and> fst (android_reader_bid example_params new_AndroidReaderCtx example_s2_file 0) = Bid 192
   \<and> fst (android_reader_bid example_params new_AndroidReaderCtx example_file 0) = Bid 0"
proof -
  let ?buf = "example_encode example_android_hdr @ replicate 512 0"
  have m: "mb_memmem ?buf BOOT_MAGIC = Some 0"
    by (rule mb_memmem_prefix)
       (simp add: example_encode_def example_android_hdr_simps length_BOOT_MAGIC)
  have d: "example_decode (example_encode example_android_hdr) = example_android_hdr"
    by (rule example_decode_encode)
       (simp_all add: example_android_hdr_simps length_BOOT_MAGIC)
  have b1: "?buf = take (MAX_HEADER_OFFSET example_params + sizeof_AndroidHeader example_params)
               (content example_s1_file)"
    using take_example_android_image [of "[]"]
    by (simp add: example_params_simps example_s1_simps del: take_append)
  have b2: "?buf = take (MAX_HEADER_OFFSET example_params + sizeof_AndroidHeader example_params)
               (content example_s2_file)"
    by (simp add: example_params_simps example_s2_simps take_example_android_image
        del: take_append)
  have b3: "[] = take (MAX_HEADER_OFFSET example_params + sizeof_AndroidHeader example_params)
               (content example_file)"
    by (simp add: example_file_def)
  have lt: "0 < int (BOOT_MAGIC_SIZE + length (SAMSUNG_SEANDROID_MAGIC example_params)) * 8"
    by (simp add: BOOT_MAGIC_SIZE_def example_params_simps)
  have t1: "take 16 (drop 6144 (content example_s1_file)) = []"
    by (simp add: example_s1_simps length_example_android_image)
  have t2: "take 16 (drop 6144 (content example_s2_file)) = SAMSUNG_SEANDROID_MAGIC example_params"
    by (simp add: example_s2_simps length_example_android_image example_params_simps)
  have ne: "SAMSUNG_SEANDROID_MAGIC example_params \<noteq> []"
    using example_params_simps(5) by auto
  have hd: "example_android_hdr = decode_AndroidHeader example_params
               (take (sizeof_AndroidHeader example_params) (drop 0 ?buf))"
    by (simp add: example_params_simps length_example_encode_hdr d)
  have sz: "sizeof_AndroidHeader example_params \<le> length ?buf - 0"
    by (simp add: example_params_simps length_example_encode_hdr)
  note a1 = android_reader_bid_score [OF example_s1_simps(1) lt b1, of new_AndroidReaderCtx,
      THEN conjunct2, rule_format, of 0 example_android_hdr, OF conjI [OF m conjI [OF sz hd]],
      THEN conjunct1]
  note a2 = android_reader_bid_score [OF example_s2_simps(1) lt b2, of new_AndroidReaderCtx,
      THEN conjunct2, rule_format, of 0 example_android_hdr, OF conjI [OF m conjI [OF sz hd]],
      THEN conjunct1]
  have s3: "script example_file = []" by (simp add: example_file_def)
  note a3 = android_reader_bid_score [OF s3 lt b3, of new_AndroidReaderCtx, THEN conjunct1]
  have 1: "fst (android_reader_bid example_params new_AndroidReaderCtx example_s1_file 0) = Bid 64"
    using a1 ne by (simp add: example_tail_offset example_params_simps t1 BOOT_MAGIC_SIZE_def)
  have 2: "fst (android_reader_bid example_params new_AndroidReaderCtx example_s2_file 0) = Bid 192"
    using a2 by (simp add: example_tail_offset example_params_simps t2 BOOT_MAGIC_SIZE_def)
  have 3: "fst (android_reader_bid example_params new_AndroidReaderCtx example_file 0) = Bid 0"
    using a3 by (simp add: BOOT_MAGIC_def)
  from 1 2 3 show ?thesis by simp
qed

subsection \<open>Reading the header\<close>

text \<open>
  Claim C8. If \<open>android_reader_read_header\<close> is called while \<open>have_header_offset\<close> is false,
  it runs the scan \<open>find_android_header\<close>; when the scan finds the header, the decoded
  header and its offset are stored in the context, \<open>have_header_offset\<close> is set, the file is
  the one the scan left, and the call succeeds; when the scan does not succeed, its code is
  returned and \<open>have_header_offset\<close> stays false. If \<open>have_header_offset\<close> is true already,
  the call succeeds without any file operation (the file, with its log, is unchanged) and
  keeps the header and the offset of the context.
\<close>

theorem android_reader_read_header_lazy_scan:
  "(\<not> have_header_offset ctx
      \<and> find_android_header K f (MAX_HEADER_OFFSET K) (hdr ctx) (header_offset ctx)
          = (RET_OK, h, off, f1) \<longrightarrow>
      (\<exists>sg header'. android_reader_read_header K ctx f header =
          Some (RET_OK,
                ctx\<lparr>hdr := h, header_offset := off, have_header_offset := True, seg := sg\<rparr>,
                header', f1)))
   \<and> (\<not> have_header_offset ctx
      \<and> find_android_header K f (MAX_HEADER_OFFSET K) (hdr ctx) (header_offset ctx)
          = (r, h, off, f1) \<and> r \<noteq> RET_OK \<longrightarrow>
      android_reader_read_header K ctx f header =
        Some (r, ctx\<lparr>hdr := h, header_offset := off\<rparr>, header, f1))
   \<and> (have_header_offset ctx \<longrightarrow>
      (\<exists>sg header'. android_reader_read_header K ctx f header =
          Some (RET_OK, ctx\<lparr>seg := sg\<rparr>, header', f)))"
  by (simp add: read_header_unfold Let_def) blast

theorem android_reader_read_header_lazy_scan_witness:
  "(\<exists>sg header'. android_reader_read_header example_params new_AndroidReaderCtx
        example_s1_file empty_Header =
          Some (RET_OK,
                new_AndroidReaderCtx\<lparr>hdr := example_android_hdr, header_offset := 0,
                   have_header_offset := True, seg := sg\<rparr>,
                header',
                example_s1_file\<lparr>fpos := 1120, ops := [OpSeek 0 SEEK_SET, OpRead 1120]\<rparr>))
   \<and> (\<exists>sg header'. android_reader_read_header example_params
        (new_AndroidReaderCtx\<lparr>have_header_offset := True\<rparr>) example_s1_file empty_Header =
          Some (RET_OK, new_AndroidReaderCtx\<lparr>have_header_offset := True, seg := sg\<rparr>,
                header', example_s1_file))"
  using android_reader_read_header_lazy_scan
          [where ctx = new_AndroidReaderCtx and K = example_params and f = example_s1_file
             and h = example_android_hdr and off = 0 and r = RET_OK
             and ?f1.0 = "example_s1_file\<lparr>fpos := 1120, ops := [OpSeek 0 SEEK_SET, OpRead 1120]\<rparr>"
             and header = empty_Header]
        android_reader_read_header_lazy_scan
          [where ctx = "new_AndroidReaderCtx\<lparr>have_header_offset := True\<rparr>"
             and K = example_params and f = example_s1_file
             and h = example_android_hdr and off = 0 and r = RET_OK
             and ?f1.0 = example_s1_file and header = empty_Header]
        example_find_android_header [OF example_s1_simps(1,2),
           of "hdr new_AndroidReaderCtx" "header_offset new_AndroidReaderCtx"]
  by (simp add: new_ctx_simps example_params_simps example_s1_simps)

text \<open>
  Claim C4. After a successful \<open>android_reader_read_header\<close> (for a header offset below
  \<open>2^32 - sizeof(AndroidHeader)\<close>, as the scan yields), the segment table lists the kernel and
  the ramdisk, then the second bootloader if and only if \<open>second_size > 0\<close>, then the device
  tree if and only if \<open>dt_size > 0\<close>. The kernel starts at
  \<open>header_offset + sizeof(AndroidHeader)\<close> aligned up to the page size; each later segment
  of the table starts at the end of the segment before it, aligned up to the page size.
  Each segment has the size that the header gives for it, and \<open>can_truncate\<close> is false for
  all segments but the device tree, where it equals \<open>allow_truncated_dt\<close>.
\<close>

theorem android_reader_read_header_segments:
  assumes "android_reader_read_header K ctx f header = Some (RET_OK, ctx', header', f')"
      and "unat (header_offset ctx') + sizeof_AndroidHeader K < 2 ^ 32"
      and "es = sr_entries (seg ctx')"
      and "ps = ucast (page_size (hdr ctx'))"
  shows "map sr_type es =
           [ENTRY_TYPE_KERNEL, ENTRY_TYPE_RAMDISK]
           @ (if second_size (hdr ctx') > 0 then [ENTRY_TYPE_SECONDBOOT] else [])
           @ (if dt_size (hdr ctx') > 0 then [ENTRY_TYPE_DEVICE_TREE] else [])
       \<and> sr_offset (es ! 0) = align_up (header_offset ctx' + of_nat (sizeof_AndroidHeader K)) ps
       \<and> (\<forall>i. Suc i < length es \<longrightarrow>
             sr_offset (es ! Suc i) = align_up (sr_offset (es ! i) + sr_size (es ! i)) ps)
       \<and> (\<forall>e \<in> set es.
             sr_size e =
               (if sr_type e = ENTRY_TYPE_KERNEL then ucast (kernel_size (hdr ctx'))
                else if sr_type e = ENTRY_TYPE_RAMDISK then ucast (ramdisk_size (hdr ctx'))
                else if sr_type e = ENTRY_TYPE_SECONDBOOT then ucast (second_size (hdr ctx'))
                else ucast (dt_size (hdr ctx')))
             \<and> can_truncate e = (sr_type e = ENTRY_TYPE_DEVICE_TREE \<and> allow_truncated_dt ctx'))"
proof -
  have es: "es = built_entries K ctx' ps"
    using read_header_entries [OF assms(1)] assms(3,4) by simp
  note idem = built_entries_second_absent [OF assms(2), of "page_size (hdr ctx')", folded assms(4)]
  have z: "second_size (hdr ctx') = 0" if "\<not> second_size (hdr ctx') > 0"
    using that by (simp add: word_gt_0)
  have i3: "i = 0 \<or> i = 1 \<or> i = 2" if "i < 3" for i :: nat
    using that by auto
  have i2: "i = 0 \<or> i = 1" if "i < 2" for i :: nat
    using that by auto
  show ?thesis
  proof (cases "second_size (hdr ctx') > 0")
    case True
    show ?thesis
    proof (cases "dt_size (hdr ctx') > 0")
      case dt: True
      from True dt show ?thesis
        by (auto simp add: es built_entries_def Let_def nth_Cons' dest!: i3)
    next
      case dt: False
      from True dt show ?thesis
        by (auto simp add: es built_entries_def Let_def nth_Cons' dest!: i2)
    qed
  next
    case False
    note z0 = z [OF False]
    show ?thesis
    proof (cases "dt_size (hdr ctx') > 0")
      case dt: True
      from False dt z0 idem show ?thesis
        by (auto simp add: es built_entries_def Let_def nth_Cons' dest!: i2)
    next
      case dt: False
      from False dt show ?thesis
        by (auto simp add: es built_entries_def Let_def nth_Cons')
    qed
  qed
qed

lemma example_read_header:
  "android_reader_read_header example_params new_AndroidReaderCtx example_s1_file empty_Header =
     Some (RET_OK,
       new_AndroidReaderCtx\<lparr>hdr := example_android_hdr, header_offset := 0,
          have_header_offset := True,
          seg := (seg new_AndroidReaderCtx)\<lparr>sr_entries :=
             built_entries example_params
               (new_AndroidReaderCtx\<lparr>hdr := example_android_hdr, header_offset := 0,
                   have_header_offset := True\<rparr>) 2048\<rparr>\<rparr>,
       snd (android_set_header example_android_hdr empty_Header),
       example_s1_file\<lparr>fpos := 1120, ops := [OpSeek 0 SEEK_SET, OpRead 1120]\<rparr>)"
  using example_find_android_header [OF example_s1_simps(1,2),
           of "hdr new_AndroidReaderCtx" "header_offset new_AndroidReaderCtx"]
  by (simp add: read_header_unfold new_ctx_simps example_params_simps example_s1_simps
      example_android_hdr_simps Let_def)

theorem android_reader_read_header_segments_witness:
  "\<exists>ctx' header' f'.
     android_reader_read_header example_params new_AndroidReaderCtx example_s1_file empty_Header
       = Some (RET_OK, ctx', header', f')
     \<and> map sr_type (sr_entries (seg ctx')) = [ENTRY_TYPE_KERNEL, ENTRY_TYPE_RAMDISK]
     \<and> sr_offset (sr_entries (seg ctx') ! 0) = 2048
     \<and> sr_offset (sr_entries (seg ctx') ! 1) = 4096"
proof -
  let ?c = "new_AndroidReaderCtx\<lparr>hdr := example_android_hdr, header_offset := 0,
          have_header_offset := True,
          seg := (seg new_AndroidReaderCtx)\<lparr>sr_entries :=
             built_entries example_params
               (new_AndroidReaderCtx\<lparr>hdr := example_android_hdr, header_offset := 0,
                   have_header_offset := True\<rparr>) 2048\<rparr>\<rparr>"
  have b: "unat (header_offset ?c) + sizeof_AndroidHeader example_params < 2 ^ 32"
    by (simp add: example_params_simps)
  note t = android_reader_read_header_segments [OF example_read_header b refl refl]
  have ty: "map sr_type (sr_entries (seg ?c)) = [ENTRY_TYPE_KERNEL, ENTRY_TYPE_RAMDISK]"
    using t by (simp add: example_android_hdr_simps)
  then have len: "length (sr_entries (seg ?c)) = 2"
    by (metis length_map length_Cons list.size(3) numeral_2_eq_2)
  have k: "sr_offset (sr_entries (seg ?c) ! 0) = 2048"
    using t by (simp add: example_android_hdr_simps example_params_simps align_up_def
        align_page_size_def)
  have e0: "sr_entries (seg ?c) ! 0 \<in> set (sr_entries (seg ?c))"
    using len by (simp del: AndroidReaderCtx.simps SegmentReader.simps)
  have t0: "sr_type (sr_entries (seg ?c) ! 0) = ENTRY_TYPE_KERNEL"
    using ty len by (metis nth_map nth_Cons_0 zero_less_numeral)
  have sz: "sr_size (sr_entries (seg ?c) ! 0) = 100"
    using t e0 t0 by (simp add: example_android_hdr_simps del: AndroidReaderCtx.simps SegmentReader.simps)
  have "sr_offset (sr_entries (seg ?c) ! Suc 0)
          = align_up (sr_offset (sr_entries (seg ?c) ! 0) + sr_size (sr_entries (seg ?c) ! 0))
              (ucast (page_size (hdr ?c)))"
    using t len by (simp del: AndroidReaderCtx.simps SegmentReader.simps)
  then have r: "sr_offset (sr_entries (seg ?c) ! 1) = 4096"
    by (simp only: k sz One_nat_def)
       (simp add: example_android_hdr_simps align_up_def align_page_size_def)
  show ?thesis
    by (intro exI conjI, rule example_read_header, rule ty, rule k, rule r)
qed

end
